theory Spec2Isabelle
  imports Main
begin

section \<open>Strings and numbers as Python prints and reads them\<close>

text \<open>
  Strings are \<^typ>\<open>string\<close> (lists of 8-bit characters); the embedding covers ASCII
  text, which is what every pattern of the program looks for.
\<close>

definition is_digit :: "char \<Rightarrow> bool" where
  "is_digit c = (c \<in> set ''0123456789'')"

definition digit_val :: "char \<Rightarrow> int" where
  "digit_val c = of_char c - 48"

definition int_of_digits :: "string \<Rightarrow> int" where
  \<comment> \<open>\<^verbatim>\<open>int(s)\<close> for a string of decimal digits.\<close>
  "int_of_digits s = foldl (\<lambda>acc c. 10 * acc + digit_val c) 0 s"

fun str_nat :: "nat \<Rightarrow> string" where
  "str_nat n = (if n < 10 then [''0123456789'' ! n]
                else str_nat (n div 10) @ [''0123456789'' ! (n mod 10)])"

declare str_nat.simps [simp del]

definition str_int :: "int \<Rightarrow> string" where
  \<comment> \<open>\<^verbatim>\<open>str(i)\<close>, as an f-string prints an integer.\<close>
  "str_int i = (if i < 0 then CHR ''-'' # str_nat (nat (- i)) else str_nat (nat i))"

section \<open>Naive datetimes and timedeltas\<close>

text \<open>
  A naive \<^verbatim>\<open>datetime\<close> is a point on the proleptic Gregorian time line with
  microsecond resolution. It is modelled by the number of microseconds since
  0001-01-01 00:00:00; the values Python can represent are those from 0 up to
  (not including) \<open>MAX_US\<close>, the end of 9999-12-31. A \<^verbatim>\<open>timedelta\<close> is a
  number of microseconds; \<open>td_days\<close> and \<open>td_seconds\<close> are its normalised fields.
\<close>

type_synonym datetime = int
type_synonym timedelta = int

definition US_PER_SECOND :: int where "US_PER_SECOND = 1000000"
definition US_PER_MINUTE :: int where "US_PER_MINUTE = 60000000"
definition US_PER_HOUR :: int where "US_PER_HOUR = 3600000000"
definition US_PER_DAY :: int where "US_PER_DAY = 86400000000"

definition MAXORDINAL :: int where
  \<comment> \<open>\<^verbatim>\<open>date.max.toordinal()\<close>, the ordinal of 9999-12-31.\<close>
  "MAXORDINAL = 3652059"

definition MAX_US :: int where
  "MAX_US = MAXORDINAL * US_PER_DAY"

definition valid_datetime :: "datetime \<Rightarrow> bool" where
  "valid_datetime t = (0 \<le> t \<and> t < MAX_US)"

definition td_days :: "timedelta \<Rightarrow> int" where
  "td_days d = d div US_PER_DAY"

definition td_seconds :: "timedelta \<Rightarrow> int" where
  "td_seconds d = (d mod US_PER_DAY) div US_PER_SECOND"

section \<open>TimeParser.format\_relative\_time\<close>

text \<open>
  \<^verbatim>\<open>format_relative_time(dt)\<close> reads the clock once (\<^verbatim>\<open>now = datetime.now()\<close>); the
  value read is the argument \<open>now\<close>. \<^verbatim>\<open>diff.total_seconds() < 0\<close> holds exactly when the
  difference in microseconds is negative.
\<close>

definition plural :: "int \<Rightarrow> string" where
  "plural n = (if n \<noteq> 1 then ''s'' else '''')"

definition format_relative_time :: "datetime \<Rightarrow> datetime \<Rightarrow> string" where
  "format_relative_time now dt =
     (let diff = dt - now in
      if diff < 0 then ''past due''
      else
        let days = td_days diff;
            hours = td_seconds diff div 3600;
            minutes = (td_seconds diff mod 3600) div 60
        in if days > 0 then ''in '' @ str_int days @ '' day'' @ plural days
           else if hours > 0 then ''in '' @ str_int hours @ '' hour'' @ plural hours
           else if minutes > 0 then ''in '' @ str_int minutes @ '' minute'' @ plural minutes
           else ''now'')"

section \<open>ReminderScheduler: the job table\<close>

text \<open>
  The scheduler object wraps APScheduler's \<^verbatim>\<open>AsyncIOScheduler\<close> with its default in-memory
  job store. A job carries its id, the run date of its \<^verbatim>\<open>DateTrigger\<close> and the argument
  list \<^verbatim>\<open>[reminder_id, user_id, task_id, message]\<close>; the function of every job is
  \<^verbatim>\<open>_trigger_reminder\<close>. The table is the list of stored jobs. The store keeps the list
  ordered by run time; no operation below depends on a job's position, and the model
  keeps insertion order. The scheduler is running, as it is once \<^verbatim>\<open>on_ready\<close> has
  started it.
\<close>

record job =
  jid :: string
  run_date :: datetime
  jargs :: "string \<times> int \<times> string \<times> string"

datatype scheduler_error = ConflictingIdError | JobLookupError | TriggerError

text \<open>
  \<^verbatim>\<open>DateTrigger(run_date=t)\<close> turns the naive datetime into a time of the scheduler's zone;
  depending on the zone object it does so through a float timestamp, which need not keep
  the microseconds of a far date, and it raises for a time it cannot convert (near
  \<^verbatim>\<open>datetime.max\<close>). What the constructor does is an input of the model: \<open>date_trigger t\<close>
  is \<open>Inr d\<close> when the trigger is built, \<open>d\<close> being its run date, and \<open>Inl e\<close> when the
  constructor raises. The theorems hold for every such function.
\<close>

definition get_job :: "job list \<Rightarrow> string \<Rightarrow> job option" where
  \<comment> \<open>\<^verbatim>\<open>scheduler.get_job(job_id)\<close>: the job with this id, or \<^verbatim>\<open>None\<close>.\<close>
  "get_job js i = find (\<lambda>j. jid j = i) js"

fun replace_first :: "job \<Rightarrow> job list \<Rightarrow> job list" where
  "replace_first j [] = []"
| "replace_first j (k # ks) = (if jid k = jid j then j # ks else k # replace_first j ks)"

fun delete_first :: "string \<Rightarrow> job list \<Rightarrow> job list" where
  "delete_first i [] = []"
| "delete_first i (k # ks) = (if jid k = i then ks else k # delete_first i ks)"

definition add_job :: "job list \<Rightarrow> job \<Rightarrow> bool \<Rightarrow> scheduler_error + job list" where
  \<comment> \<open>\<^verbatim>\<open>scheduler.add_job(..., id=job_id, replace_existing=r)\<close>: the store refuses an id it
     already holds (\<^verbatim>\<open>ConflictingIdError\<close>); with \<^verbatim>\<open>replace_existing\<close> the scheduler
     then updates the stored job instead.\<close>
  "add_job js j replace_existing =
     (case get_job js (jid j) of
        None \<Rightarrow> Inr (js @ [j])
      | Some _ \<Rightarrow> if replace_existing then Inr (replace_first j js) else Inl ConflictingIdError)"

definition remove_job :: "job list \<Rightarrow> string \<Rightarrow> scheduler_error + job list" where
  \<comment> \<open>\<^verbatim>\<open>scheduler.remove_job(job_id)\<close>: raises \<^verbatim>\<open>JobLookupError\<close> when no job has the id.\<close>
  "remove_job js i =
     (case get_job js i of
        None \<Rightarrow> Inl JobLookupError
      | Some _ \<Rightarrow> Inr (delete_first i js))"

definition job_id_of :: "string \<Rightarrow> string" where
  \<comment> \<open>\<^verbatim>\<open>job_id = f"reminder_{reminder_id}"\<close>\<close>
  "job_id_of reminder_id = ''reminder_'' @ reminder_id"

definition add_reminder ::
  "(datetime \<Rightarrow> scheduler_error + datetime) \<Rightarrow> job list \<Rightarrow> string \<Rightarrow> datetime \<Rightarrow> int \<Rightarrow> string
     \<Rightarrow> string \<Rightarrow> job list \<times> bool" where
  \<comment> \<open>The trigger is built before \<^verbatim>\<open>add_job\<close> is entered; every exception ends in
     \<^verbatim>\<open>return False\<close>, with the table as it was.\<close>
  "add_reminder date_trigger js reminder_id reminder_time user_id task_id message =
     (case date_trigger reminder_time of
        Inl e \<Rightarrow> (js, False)
      | Inr trigger_run_date \<Rightarrow>
          (case add_job js
                  \<lparr>jid = job_id_of reminder_id, run_date = trigger_run_date,
                   jargs = (reminder_id, user_id, task_id, message)\<rparr> True of
             Inr js' \<Rightarrow> (js', True)
           | Inl e \<Rightarrow> (js, False)))"

definition remove_reminder :: "job list \<Rightarrow> string \<Rightarrow> job list \<times> bool" where
  "remove_reminder js reminder_id =
     (case remove_job js (job_id_of reminder_id) of
        Inr js' \<Rightarrow> (js', True)
      | Inl e \<Rightarrow> (js, False))"

definition update_reminder ::
  "(datetime \<Rightarrow> scheduler_error + datetime) \<Rightarrow> job list \<Rightarrow> string \<Rightarrow> datetime
     \<Rightarrow> job list \<times> bool" where
  \<comment> \<open>The job is removed first and looked up afterwards; \<^verbatim>\<open>add_job\<close> is called without
     \<^verbatim>\<open>replace_existing\<close>, its trigger built before it is entered. Every exception ends in
     \<^verbatim>\<open>return False\<close>, with the table as it was when the exception was raised.\<close>
  "update_reminder date_trigger js reminder_id new_time =
     (case remove_job js (job_id_of reminder_id) of
        Inl e \<Rightarrow> (js, False)
      | Inr js1 \<Rightarrow>
          (case get_job js1 (job_id_of reminder_id) of
             Some existing_job \<Rightarrow>
               (case date_trigger new_time of
                  Inl e \<Rightarrow> (js1, False)
                | Inr trigger_run_date \<Rightarrow>
                    (case add_job js1
                            \<lparr>jid = job_id_of reminder_id, run_date = trigger_run_date,
                             jargs = jargs existing_job\<rparr> False of
                       Inr js2 \<Rightarrow> (js2, True)
                     | Inl e \<Rightarrow> (js1, False)))
           | None \<Rightarrow> (js1, False)))"

definition one_job_per_id :: "job list \<Rightarrow> bool" where
  \<comment> \<open>The invariant of the table: no two stored jobs share an id.\<close>
  "one_job_per_id js = distinct (map jid js)"

definition live_jobs :: "job list \<Rightarrow> string \<Rightarrow> job list" where
  \<comment> \<open>The stored jobs of one reminder.\<close>
  "live_jobs js reminder_id = filter (\<lambda>j. jid j = job_id_of reminder_id) js"

section \<open>The persistent store (TaskManager over MongoDB)\<close>

text \<open>
  A document's \<^verbatim>\<open>_id\<close> is a BSON ObjectId. It is modelled by its canonical text, the 24
  lowercase hex digits that \<^verbatim>\<open>str(_id)\<close> prints, so that \<^verbatim>\<open>from_dict\<close>'s \<^verbatim>\<open>str(...)\<close> is
  the identity. \<open>ObjectId s\<close> is the constructor applied to a string: \<open>None\<close> stands for
  \<^verbatim>\<open>InvalidId\<close>. (A 24-character string with embedded whitespace is not refused by
  \<^verbatim>\<open>bytes.fromhex\<close> but yields an id of fewer than twelve bytes, which no stored document
  has; the methods below answer it as they answer an invalid id, so it is \<open>None\<close> too.)
\<close>

definition is_hex :: "char \<Rightarrow> bool" where
  "is_hex c = (c \<in> set ''0123456789abcdefABCDEF'')"

definition lower_char :: "char \<Rightarrow> char" where
  "lower_char c =
     (case map_of (zip ''ABCDEFGHIJKLMNOPQRSTUVWXYZ'' ''abcdefghijklmnopqrstuvwxyz'') c of
        Some l \<Rightarrow> l
      | None \<Rightarrow> c)"

definition lower :: "string \<Rightarrow> string" where
  \<comment> \<open>\<^verbatim>\<open>str.lower()\<close> on ASCII text.\<close>
  "lower s = map lower_char s"

definition ObjectId :: "string \<Rightarrow> string option" where
  "ObjectId s = (if length s = 24 \<and> list_all is_hex s then Some (lower s) else None)"

record Task =
  t_id :: string
  t_user_id :: int
  title :: string
  description :: string
  due_date :: "datetime option"
  priority :: string
  completed :: bool
  t_created_at :: datetime

record Reminder =
  r_id :: string
  user_id :: int
  task_id :: string
  reminder_time :: datetime
  message :: string
  sent :: bool
  created_at :: datetime

record TaskManager =
  tasks_collection :: "Task list"
  reminders_collection :: "Reminder list"

definition get_task_by_id :: "TaskManager \<Rightarrow> string \<Rightarrow> Task option" where
  \<comment> \<open>\<^verbatim>\<open>find_one({"_id": ObjectId(task_id)})\<close>; every exception gives \<^verbatim>\<open>None\<close>.\<close>
  "get_task_by_id tm tid =
     (case ObjectId tid of
        None \<Rightarrow> None
      | Some i \<Rightarrow> find (\<lambda>t. t_id t = i) (tasks_collection tm))"

definition create_reminder_doc :: "TaskManager \<Rightarrow> string \<Rightarrow> Reminder \<Rightarrow> TaskManager \<times> string" where
  \<comment> \<open>\<^verbatim>\<open>TaskManager.create_reminder\<close>: \<^verbatim>\<open>insert_one\<close> stores the document under the id the
     driver generates (the argument \<open>new_id\<close>) and that id's text is returned.\<close>
  "create_reminder_doc tm new_id reminder =
     (tm\<lparr>reminders_collection := reminders_collection tm @ [reminder\<lparr>r_id := new_id\<rparr>]\<rparr>, new_id)"

definition get_pending_reminders :: "TaskManager \<Rightarrow> datetime \<Rightarrow> Reminder list" where
  \<comment> \<open>\<^verbatim>\<open>find({"reminder_time": {"$lte": current_time}, "sent": False})\<close>\<close>
  "get_pending_reminders tm current_time =
     filter (\<lambda>r. reminder_time r \<le> current_time \<and> sent r = False) (reminders_collection tm)"

fun set_sent_first :: "string \<Rightarrow> Reminder list \<Rightarrow> Reminder list" where
  \<comment> \<open>\<^verbatim>\<open>update_one({"_id": i}, {"$set": {"sent": True}})\<close>: the first match is updated.\<close>
  "set_sent_first i [] = []"
| "set_sent_first i (r # rs) =
     (if r_id r = i then r\<lparr>sent := True\<rparr> # rs else r # set_sent_first i rs)"

definition mark_reminder_sent :: "TaskManager \<Rightarrow> string \<Rightarrow> TaskManager \<times> bool" where
  \<comment> \<open>The result is \<^verbatim>\<open>modified_count > 0\<close>: a document was found and its flag changed.
     Every exception (an invalid id) gives \<^verbatim>\<open>False\<close>.\<close>
  "mark_reminder_sent tm reminder_id =
     (case ObjectId reminder_id of
        None \<Rightarrow> (tm, False)
      | Some i \<Rightarrow>
          (case find (\<lambda>r. r_id r = i) (reminders_collection tm) of
             None \<Rightarrow> (tm, False)
           | Some r \<Rightarrow>
               (tm\<lparr>reminders_collection := set_sent_first i (reminders_collection tm)\<rparr>,
                \<not> sent r)))"

section \<open>ReminderJobHandler: delivery, sweep, creation and cancellation\<close>

text \<open>
  What Discord answers during one delivery is an input of the model: the outcome of
  \<^verbatim>\<open>bot.fetch_user\<close> (the user, \<^verbatim>\<open>discord.NotFound\<close>, another \<^verbatim>\<open>discord.HTTPException\<close>, or
  any other exception) and the outcome of \<^verbatim>\<open>user.send\<close> (sent, \<^verbatim>\<open>discord.Forbidden\<close>, or
  any other exception). What a delivery does is recorded as a list of events. The
  database is reachable and its documents have the fields \<^verbatim>\<open>to_dict\<close> writes, so that the
  queries and \<^verbatim>\<open>from_dict\<close> do not raise; building the embed from a task does not raise.
\<close>

datatype fetch_outcome = Fetched | Fetch_NotFound | Fetch_HTTPException | Fetch_other_exception

datatype send_outcome = Delivered | Send_Forbidden | Send_other_exception

record discord_reply =
  fetch_user :: fetch_outcome
  send :: send_outcome

datatype event =
    Send_reminder string
  | Reminder_callback string
  | DM_sent int string string
  | Mark_sent string

text \<open>
  \<open>Send_reminder i\<close>: \<^verbatim>\<open>_send_reminder\<close> was entered for the reminder with id \<open>i\<close>;
  \<open>Reminder_callback i\<close>: \<^verbatim>\<open>handle_reminder_callback\<close> was entered for reminder id \<open>i\<close>;
  \<open>DM_sent u t m\<close>: \<^verbatim>\<open>user.send\<close> returned for user \<open>u\<close>, with the embed built from the task
  titled \<open>t\<close> and the message \<open>m\<close>; \<open>Mark_sent i\<close>: \<^verbatim>\<open>mark_reminder_sent(i)\<close> was called.
\<close>

definition send_reminder :: "TaskManager \<Rightarrow> discord_reply \<Rightarrow> Reminder \<Rightarrow> TaskManager \<times> event list" where
  "send_reminder tm reply reminder =
     (case get_task_by_id tm (task_id reminder) of
        None \<Rightarrow> (tm, [Send_reminder (r_id reminder)])
      | Some task \<Rightarrow>
          (case fetch_user reply of
             Fetch_NotFound \<Rightarrow> (tm, [Send_reminder (r_id reminder)])
           | Fetch_HTTPException \<Rightarrow> (tm, [Send_reminder (r_id reminder)])
           | Fetch_other_exception \<Rightarrow> (tm, [Send_reminder (r_id reminder)])
           | Fetched \<Rightarrow>
               (case send reply of
                  Send_Forbidden \<Rightarrow> (tm, [Send_reminder (r_id reminder)])
                | Send_other_exception \<Rightarrow> (tm, [Send_reminder (r_id reminder)])
                | Delivered \<Rightarrow>
                    (fst (mark_reminder_sent tm (r_id reminder)),
                     [Send_reminder (r_id reminder),
                      DM_sent (user_id reminder) (title task) (message reminder),
                      Mark_sent (r_id reminder)]))))"

definition handle_reminder_callback ::
  "TaskManager \<Rightarrow> discord_reply \<Rightarrow> string \<Rightarrow> int \<Rightarrow> string \<Rightarrow> string \<Rightarrow> TaskManager \<times> event list" where
  "handle_reminder_callback tm reply reminder_id uid tid msg =
     (case get_task_by_id tm tid of
        None \<Rightarrow> (tm, [Reminder_callback reminder_id])
      | Some task \<Rightarrow>
          (case fetch_user reply of
             Fetch_NotFound \<Rightarrow> (tm, [Reminder_callback reminder_id])
           | Fetch_HTTPException \<Rightarrow> (tm, [Reminder_callback reminder_id])
           | Fetch_other_exception \<Rightarrow> (tm, [Reminder_callback reminder_id])
           | Fetched \<Rightarrow>
               (case send reply of
                  Send_Forbidden \<Rightarrow> (tm, [Reminder_callback reminder_id])
                | Send_other_exception \<Rightarrow> (tm, [Reminder_callback reminder_id])
                | Delivered \<Rightarrow>
                    (fst (mark_reminder_sent tm reminder_id),
                     [Reminder_callback reminder_id,
                      DM_sent uid (title task) msg,
                      Mark_sent reminder_id]))))"

fun send_each :: "TaskManager \<Rightarrow> (nat \<Rightarrow> discord_reply) \<Rightarrow> nat \<Rightarrow> Reminder list \<Rightarrow> TaskManager \<times> event list" where
  \<comment> \<open>The loop \<^verbatim>\<open>for reminder in pending_reminders: await self._send_reminder(reminder)\<close>;
     \<open>replies k\<close> is what Discord answers during the \<open>k\<close>-th delivery of the cycle.\<close>
  "send_each tm replies k [] = (tm, [])"
| "send_each tm replies k (r # rs) =
     (let (tm1, evs1) = send_reminder tm (replies k) r;
          (tm2, evs2) = send_each tm1 replies (Suc k) rs
      in (tm2, evs1 @ evs2))"

definition process_pending_reminders ::
  "TaskManager \<Rightarrow> datetime \<Rightarrow> (nat \<Rightarrow> discord_reply) \<Rightarrow> TaskManager \<times> event list" where
  \<comment> \<open>One cycle of the sweep; \<open>current_time\<close> is the value \<^verbatim>\<open>datetime.utcnow()\<close> returns.\<close>
  "process_pending_reminders tm current_time replies =
     send_each tm replies 0 (get_pending_reminders tm current_time)"

text \<open>
  The bot holds the global scheduler and the store. \<^verbatim>\<open>create_reminder\<close> and
  \<^verbatim>\<open>delete_reminder\<close> act on both.
\<close>

record bot =
  jobs :: "job list"
  task_manager :: TaskManager

definition create_reminder ::
  "(datetime \<Rightarrow> scheduler_error + datetime) \<Rightarrow> bot \<Rightarrow> string \<Rightarrow> datetime \<Rightarrow> int \<Rightarrow> string
     \<Rightarrow> datetime \<Rightarrow> string \<Rightarrow> bot \<times> string option" where
  \<comment> \<open>\<open>new_id\<close> is the id the driver generates, \<open>utcnow\<close> the clock reading that becomes
     \<^verbatim>\<open>created_at\<close>. The result of \<^verbatim>\<open>add_reminder\<close> is not looked at.\<close>
  "create_reminder date_trigger b new_id utcnow uid tid rtime msg =
     (let reminder = \<lparr>r_id = [], user_id = uid, task_id = tid, reminder_time = rtime,
                        message = msg, sent = False, created_at = utcnow\<rparr>;
          (tm', reminder_id) = create_reminder_doc (task_manager b) new_id reminder;
          (js', ok) = add_reminder date_trigger (jobs b) reminder_id rtime uid tid msg
      in (\<lparr>jobs = js', task_manager = tm'\<rparr>, Some reminder_id))"

definition delete_reminder :: "bot \<Rightarrow> string \<Rightarrow> bot \<times> bool" where
  \<comment> \<open>The job is removed from the scheduler; the record is not removed from the
     database: "For now, we'll just mark it as sent".\<close>
  "delete_reminder b reminder_id =
     (let (js', removed) = remove_reminder (jobs b) reminder_id;
          (tm', marked) = mark_reminder_sent (task_manager b) reminder_id
      in (\<lparr>jobs = js', task_manager = tm'\<rparr>, True))"

text \<open>
  When APScheduler runs a job, it calls \<^verbatim>\<open>_trigger_reminder\<close> with the job's arguments,
  which awaits the registered callback \<^verbatim>\<open>handle_reminder_callback\<close>, and it drops the job,
  whose \<^verbatim>\<open>DateTrigger\<close> has no further run. A job whose run date is still ahead does not
  run, and neither does a job that the table does not hold.
\<close>

definition run_job :: "bot \<Rightarrow> datetime \<Rightarrow> string \<Rightarrow> discord_reply \<Rightarrow> bot \<times> event list" where
  "run_job b now i reply =
     (case get_job (jobs b) i of
        None \<Rightarrow> (b, [])
      | Some j \<Rightarrow>
          if run_date j \<le> now then
            (case jargs j of (reminder_id, uid, tid, msg) \<Rightarrow>
               (let (tm', evs) = handle_reminder_callback (task_manager b) reply reminder_id uid tid msg
                in (\<lparr>jobs = delete_first i (jobs b), task_manager = tm'\<rparr>, evs)))
          else (b, []))"

text \<open>
  A history of the running bot: sweep cycles, timers that fire, cancellations and
  reschedulings, in any order. A rescheduling carries what \<^verbatim>\<open>DateTrigger\<close> does during it.
\<close>

datatype action =
    Sweep datetime "nat \<Rightarrow> discord_reply"
  | Timer datetime string discord_reply
  | Cancel string
  | Reschedule string datetime "datetime \<Rightarrow> scheduler_error + datetime"

fun step :: "bot \<Rightarrow> action \<Rightarrow> bot \<times> event list" where
  "step b (Sweep now replies) =
     (let (tm', evs) = process_pending_reminders (task_manager b) now replies
      in (b\<lparr>task_manager := tm'\<rparr>, evs))"
| "step b (Timer now i reply) = run_job b now i reply"
| "step b (Cancel reminder_id) = (fst (delete_reminder b reminder_id), [])"
| "step b (Reschedule reminder_id new_time date_trigger) =
     (b\<lparr>jobs := fst (update_reminder date_trigger (jobs b) reminder_id new_time)\<rparr>, [])"

fun run :: "bot \<Rightarrow> action list \<Rightarrow> bot \<times> event list" where
  "run b [] = (b, [])"
| "run b (a # as) =
     (let (b1, evs1) = step b a; (b2, evs2) = run b1 as in (b2, evs1 @ evs2))"

subsection \<open>What the theorems observe\<close>

definition sent_of :: "TaskManager \<Rightarrow> string \<Rightarrow> bool list" where
  \<comment> \<open>The persisted sent flags of the records with this id.\<close>
  "sent_of tm i = map sent (filter (\<lambda>r. r_id r = i) (reminders_collection tm))"

definition jobs_from_add_reminder :: "job list \<Rightarrow> bool" where
  \<comment> \<open>Every job has the shape \<^verbatim>\<open>add_reminder\<close> gives it: its id is \<^verbatim>\<open>reminder_\<close> followed by
     the reminder id among its arguments.\<close>
  "jobs_from_add_reminder js = list_all (\<lambda>j. jid j = job_id_of (fst (jargs j))) js"

definition bot_invariant :: "bot \<Rightarrow> bool" where
  \<comment> \<open>What holds of every state the bot reaches from an empty job table: the table has
     one job per id, each job as \<^verbatim>\<open>add_reminder\<close> makes it, and the ids of the reminder
     records are unique (the database generates them).\<close>
  "bot_invariant b =
     (one_job_per_id (jobs b) \<and> jobs_from_add_reminder (jobs b) \<and>
      distinct (map r_id (reminders_collection (task_manager b))))"

definition all_sent :: "TaskManager \<Rightarrow> string \<Rightarrow> bool" where
  \<comment> \<open>Every record with this id is marked sent.\<close>
  "all_sent tm i = list_all (\<lambda>s. s) (sent_of tm i)"

fun sweep_deliveries :: "event list \<Rightarrow> string list" where
  \<comment> \<open>The ids of the reminders for which the sweep invoked \<^verbatim>\<open>_send_reminder\<close>, in order.\<close>
  "sweep_deliveries [] = []"
| "sweep_deliveries (Send_reminder i # evs) = i # sweep_deliveries evs"
| "sweep_deliveries (e # evs) = sweep_deliveries evs"

fun timer_deliveries :: "event list \<Rightarrow> string list" where
  \<comment> \<open>The reminder ids with which \<^verbatim>\<open>handle_reminder_callback\<close> was invoked, in order.\<close>
  "timer_deliveries [] = []"
| "timer_deliveries (Reminder_callback i # evs) = i # timer_deliveries evs"
| "timer_deliveries (e # evs) = timer_deliveries evs"



section \<open>Regular expressions, as \<^verbatim>\<open>re.match\<close> runs them\<close>

text \<open>
  The patterns of the program use literal text, character classes, sequence,
  alternation, \<^verbatim>\<open>?\<close>, \<^verbatim>\<open>+\<close> on a class, capturing groups and \<^verbatim>\<open>$\<close>. \<open>rx_match r s\<close> lists
  every way \<open>r\<close> matches a prefix of \<open>s\<close>, in the order in which Python's backtracking
  matcher tries them (an earlier alternative first, a longer repetition first); each
  entry holds the texts of the groups that took part and the rest of the string.
  \<^verbatim>\<open>re.match\<close> anchors at the start and returns the first entry.
\<close>

datatype rx =
    Eps
  | Ch string
  | Str string
  | Seq rx rx
  | Alt rx rx
  | Opt rx
  | Many1 string
  | Grp rx
  | Eol

fun many1 :: "string \<Rightarrow> string \<Rightarrow> string list" where
  \<comment> \<open>The rests after one or more characters of the class, the longest run first.\<close>
  "many1 cls [] = []"
| "many1 cls (c # s) = (if c \<in> set cls then many1 cls s @ [s] else [])"

fun rx_match :: "rx \<Rightarrow> string \<Rightarrow> (string list \<times> string) list" where
  "rx_match Eps s = [([], s)]"
| "rx_match (Ch cls) s =
     (case s of [] \<Rightarrow> [] | c # cs \<Rightarrow> if c \<in> set cls then [([], cs)] else [])"
| "rx_match (Str t) s = (if take (length t) s = t then [([], drop (length t) s)] else [])"
| "rx_match (Seq a b) s =
     concat (map (\<lambda>(g1, s1). map (\<lambda>(g2, s2). (g1 @ g2, s2)) (rx_match b s1)) (rx_match a s))"
| "rx_match (Alt a b) s = rx_match a s @ rx_match b s"
| "rx_match (Opt a) s = rx_match a s @ [([], s)]"
| "rx_match (Many1 cls) s = map (\<lambda>s'. ([], s')) (many1 cls s)"
| "rx_match (Grp a) s =
     map (\<lambda>(g, s'). (take (length s - length s') s # g, s')) (rx_match a s)"
| "rx_match Eol s = (if s = [] \<or> s = [CHR 0x0A] then [([], s)] else [])"

definition re_match :: "rx \<Rightarrow> string \<Rightarrow> string list option" where
  \<comment> \<open>\<^verbatim>\<open>re.match(pattern, s)\<close>: the groups of the first match, or \<^verbatim>\<open>None\<close>.\<close>
  "re_match r s = (case rx_match r s of [] \<Rightarrow> None | (g, s') # ms \<Rightarrow> Some g)"

fun seq :: "rx list \<Rightarrow> rx" where
  "seq [] = Eps"
| "seq [r] = r"
| "seq (r # rs) = Seq r (seq rs)"

fun any_of :: "string list \<Rightarrow> rx" where
  \<comment> \<open>\<^verbatim>\<open>a|b|c\<close> over literal words.\<close>
  "any_of [] = Ch []"
| "any_of [w] = Str w"
| "any_of (w # ws) = Alt (Str w) (any_of ws)"

primrec times :: "nat \<Rightarrow> rx \<Rightarrow> rx" where
  \<comment> \<open>\<^verbatim>\<open>r{n}\<close>\<close>
  "times 0 r = Eps"
| "times (Suc n) r = Seq r (times n r)"

definition digits :: string where
  \<comment> \<open>The class \<^verbatim>\<open>\d\<close> on ASCII text.\<close>
  "digits = ''0123456789''"

definition whitespace :: string where
  \<comment> \<open>The ASCII characters for which \<^verbatim>\<open>str.isspace\<close> holds; the class \<^verbatim>\<open>\s\<close>.\<close>
  "whitespace = [CHR 0x20, CHR 0x09, CHR 0x0A, CHR 0x0B, CHR 0x0C, CHR 0x0D,
                 CHR 0x1C, CHR 0x1D, CHR 0x1E, CHR 0x1F]"

definition strip :: "string \<Rightarrow> string" where
  \<comment> \<open>\<^verbatim>\<open>str.strip()\<close>\<close>
  "strip s = rev (dropWhile (\<lambda>c. c \<in> set whitespace) (rev (dropWhile (\<lambda>c. c \<in> set whitespace) s)))"

fun split_from :: "string \<Rightarrow> string \<Rightarrow> string list" where
  \<comment> \<open>The first argument is the word read so far, reversed.\<close>
  "split_from w [] = (if w = [] then [] else [rev w])"
| "split_from w (c # cs) =
     (if c \<in> set whitespace
      then (if w = [] then split_from [] cs else rev w # split_from [] cs)
      else split_from (c # w) cs)"

definition split :: "string \<Rightarrow> string list" where
  \<comment> \<open>\<^verbatim>\<open>str.split()\<close>: the words between runs of whitespace.\<close>
  "split s = split_from [] s"

fun join :: "string \<Rightarrow> string list \<Rightarrow> string" where
  \<comment> \<open>\<^verbatim>\<open>sep.join(parts)\<close>\<close>
  "join sep [] = []"
| "join sep [p] = p"
| "join sep (p # ps) = p @ sep @ join sep ps"

section \<open>ValidationHelper.validate\_task\_id\<close>

definition task_id_pattern :: rx where
  \<comment> \<open>\<^verbatim>\<open>^[a-f0-9]{24}$\<close>; \<^verbatim>\<open>re.match\<close> starts at the beginning of the string, where \<^verbatim>\<open>^\<close>
     holds. \<^verbatim>\<open>$\<close> holds at the end of the string and also just before a line feed that
     ends the string.\<close>
  "task_id_pattern = Seq (times 24 (Ch ''abcdef0123456789'')) Eol"

definition validate_task_id :: "string \<Rightarrow> bool" where
  \<comment> \<open>The empty string is refused first (\<^verbatim>\<open>not task_id\<close>).\<close>
  "validate_task_id tid =
     (if tid = [] then False else re_match task_id_pattern tid \<noteq> None)"

section \<open>The datetime library\<close>

datatype py_error = ValueError | OverflowError | KeyError

definition is_leap :: "int \<Rightarrow> bool" where
  "is_leap year = (year mod 4 = 0 \<and> (year mod 100 \<noteq> 0 \<or> year mod 400 = 0))"

definition days_before_year :: "int \<Rightarrow> int" where
  "days_before_year year =
     (let y = year - 1 in y * 365 + y div 4 - y div 100 + y div 400)"

definition DAYS_IN_MONTH :: "int list" where
  "DAYS_IN_MONTH = [-1, 31, 28, 31, 30, 31, 30, 31, 31, 30, 31, 30, 31]"

definition DAYS_BEFORE_MONTH :: "int list" where
  "DAYS_BEFORE_MONTH = [-1, 0, 31, 59, 90, 120, 151, 181, 212, 243, 273, 304, 334]"

definition days_in_month :: "int \<Rightarrow> int \<Rightarrow> int" where
  \<comment> \<open>For a month from 1 to 12.\<close>
  "days_in_month year month =
     (if month = 2 \<and> is_leap year then 29 else DAYS_IN_MONTH ! nat month)"

definition days_before_month :: "int \<Rightarrow> int \<Rightarrow> int" where
  \<comment> \<open>For a month from 1 to 12.\<close>
  "days_before_month year month =
     DAYS_BEFORE_MONTH ! nat month + (if month > 2 \<and> is_leap year then 1 else 0)"

definition ymd2ord :: "int \<Rightarrow> int \<Rightarrow> int \<Rightarrow> int" where
  "ymd2ord year month day = days_before_year year + days_before_month year month + day"

definition ord2ymd :: "int \<Rightarrow> int \<times> int \<times> int" where
  "ord2ymd ordinal =
     (let n = ordinal - 1;
          n400 = n div 146097; na = n mod 146097;
          n100 = na div 36524; nb = na mod 36524;
          n4 = nb div 1461; nc = nb mod 1461;
          n1 = nc div 365; nd = nc mod 365;
          year = n400 * 400 + 1 + n100 * 100 + n4 * 4 + n1
      in if n1 = 4 \<or> n100 = 4 then (year - 1, 12, 31)
         else
           let leapyear = (n1 = 3 \<and> (n4 \<noteq> 24 \<or> n100 = 3));
               month = (nd + 50) div 32;
               preceding = DAYS_BEFORE_MONTH ! nat month + (if month > 2 \<and> leapyear then 1 else 0)
           in if preceding > nd
              then (year, month - 1,
                    nd - (preceding - (DAYS_IN_MONTH ! nat (month - 1)
                                        + (if month - 1 = 2 \<and> leapyear then 1 else 0))) + 1)
              else (year, month, nd - preceding + 1))"

definition mk_datetime :: "int \<Rightarrow> int \<Rightarrow> int \<Rightarrow> int \<Rightarrow> int \<Rightarrow> py_error + datetime" where
  \<comment> \<open>\<^verbatim>\<open>datetime(year, month, day, hour, minute)\<close>: \<^verbatim>\<open>ValueError\<close> for a field out of range.\<close>
  "mk_datetime year month day hour minute =
     (if 1 \<le> year \<and> year \<le> 9999 \<and> 1 \<le> month \<and> month \<le> 12 \<and>
         1 \<le> day \<and> day \<le> days_in_month year month \<and>
         0 \<le> hour \<and> hour \<le> 23 \<and> 0 \<le> minute \<and> minute \<le> 59
      then Inr ((ymd2ord year month day - 1) * US_PER_DAY + hour * US_PER_HOUR + minute * US_PER_MINUTE)
      else Inl ValueError)"

definition toordinal :: "datetime \<Rightarrow> int" where
  \<comment> \<open>The day number of the date; 0001-01-01 is day 1.\<close>
  "toordinal t = t div US_PER_DAY + 1"

definition weekday :: "datetime \<Rightarrow> int" where
  \<comment> \<open>\<^verbatim>\<open>(self.toordinal() + 6) % 7\<close>: Monday is 0, Sunday is 6.\<close>
  "weekday t = (toordinal t + 6) mod 7"

definition timedelta :: "int \<Rightarrow> py_error + timedelta" where
  \<comment> \<open>The constructor, its argument given in microseconds: \<^verbatim>\<open>OverflowError\<close> when the
     normalised number of days is beyond 999999999 in magnitude.\<close>
  "timedelta us = (if \<bar>us div US_PER_DAY\<bar> > 999999999 then Inl OverflowError else Inr us)"

definition add_timedelta :: "datetime \<Rightarrow> timedelta \<Rightarrow> py_error + datetime" where
  \<comment> \<open>\<^verbatim>\<open>datetime + timedelta\<close>: \<^verbatim>\<open>OverflowError\<close> when the result is not a datetime.\<close>
  "add_timedelta t d = (if valid_datetime (t + d) then Inr (t + d) else Inl OverflowError)"

definition plus_us :: "datetime \<Rightarrow> int \<Rightarrow> py_error + datetime" where
  \<comment> \<open>\<^verbatim>\<open>now + timedelta(...)\<close>, the timedelta built first.\<close>
  "plus_us t us = (case timedelta us of Inl e \<Rightarrow> Inl e | Inr d \<Rightarrow> add_timedelta t d)"

definition replace_hour_minute :: "datetime \<Rightarrow> int \<Rightarrow> int \<Rightarrow> py_error + datetime" where
  \<comment> \<open>\<^verbatim>\<open>now.replace(hour=h, minute=m, second=0, microsecond=0)\<close>\<close>
  "replace_hour_minute t hour minute =
     (if 0 \<le> hour \<and> hour \<le> 23 \<and> 0 \<le> minute \<and> minute \<le> 59
      then Inr ((t div US_PER_DAY) * US_PER_DAY + hour * US_PER_HOUR + minute * US_PER_MINUTE)
      else Inl ValueError)"

definition dt_hour :: "datetime \<Rightarrow> int" where
  "dt_hour t = (t mod US_PER_DAY) div US_PER_HOUR"

definition dt_minute :: "datetime \<Rightarrow> int" where
  "dt_minute t = ((t mod US_PER_DAY) mod US_PER_HOUR) div US_PER_MINUTE"

definition zfill :: "nat \<Rightarrow> string \<Rightarrow> string" where
  "zfill n s = replicate (n - length s) (CHR ''0'') @ s"

section \<open>datetime.strptime and strftime\<close>

text \<open>
  \<^verbatim>\<open>strptime\<close> turns the format into a regular expression (each directive a named group,
  each run of whitespace \<^verbatim>\<open>\s+\<close>, every other character itself), matches it at the start
  of the text ignoring case, refuses text that the match leaves over, and builds the
  datetime from the groups; every failure is a \<^verbatim>\<open>ValueError\<close>, here \<open>None\<close>. Matching
  ignoring case is matching the lowercased text against lowercase patterns. Month names
  and the AM/PM marks are those of the C (English) locale. Only the directives that the
  formats of the program use are modelled.
\<close>

definition month_abbr :: "string list" where
  "month_abbr = [''jan'', ''feb'', ''mar'', ''apr'', ''may'', ''jun'',
                 ''jul'', ''aug'', ''sep'', ''oct'', ''nov'', ''dec'']"

definition month_name :: "string list" where
  "month_name = [''january'', ''february'', ''march'', ''april'', ''may'', ''june'', ''july'',
                 ''august'', ''september'', ''october'', ''november'', ''december'']"

definition month_name_by_length :: "string list" where
  \<comment> \<open>The names as the expression lists them: longest first, otherwise in calendar order.\<close>
  "month_name_by_length =
     [''september'', ''february'', ''november'', ''december'', ''january'', ''october'',
      ''august'', ''march'', ''april'', ''june'', ''july'', ''may'']"

definition directive :: "char \<Rightarrow> rx option" where
  "directive d =
     (if d = CHR ''Y'' then Some (times 4 (Ch digits))
      else if d = CHR ''m'' \<or> d = CHR ''I'' then
        Some (Alt (Seq (Str ''1'') (Ch ''012''))
               (Alt (Seq (Str ''0'') (Ch ''123456789'')) (Ch ''123456789'')))
      else if d = CHR ''d'' then
        Some (Alt (Seq (Str ''3'') (Ch ''01''))
               (Alt (Seq (Ch ''12'') (Ch digits))
                 (Alt (Seq (Str ''0'') (Ch ''123456789''))
                   (Alt (Ch ''123456789'') (Seq (Str '' '') (Ch ''123456789''))))))
      else if d = CHR ''H'' then
        Some (Alt (Seq (Str ''2'') (Ch ''0123'')) (Alt (Seq (Ch ''01'') (Ch digits)) (Ch digits)))
      else if d = CHR ''M'' then Some (Alt (Seq (Ch ''012345'') (Ch digits)) (Ch digits))
      else if d = CHR ''p'' then Some (any_of [''am'', ''pm''])
      else if d = CHR ''b'' then Some (any_of month_abbr)
      else if d = CHR ''B'' then Some (any_of month_name_by_length)
      else None)"

function compile_format :: "string \<Rightarrow> (string \<times> rx) option" where
  \<comment> \<open>The directive letters of the format, in order, and the expression for it.\<close>
  "compile_format [] = Some ([], Eps)"
| "compile_format (c # cs) =
     (if c = CHR ''%'' then
        (case cs of
           [] \<Rightarrow> None
         | d # ds \<Rightarrow>
             (case directive d of
                None \<Rightarrow> None
              | Some r \<Rightarrow>
                  (case compile_format ds of
                     None \<Rightarrow> None
                   | Some (keys, rs) \<Rightarrow> Some (d # keys, Seq (Grp r) rs))))
      else if c \<in> set whitespace then
        (case compile_format (dropWhile (\<lambda>c. c \<in> set whitespace) cs) of
           None \<Rightarrow> None
         | Some (keys, rs) \<Rightarrow> Some (keys, Seq (Many1 whitespace) rs))
      else
        (case compile_format cs of
           None \<Rightarrow> None
         | Some (keys, rs) \<Rightarrow> Some (keys, Seq (Str [lower_char c]) rs)))"
  by pat_completeness auto
termination
  by (relation "measure length") (auto simp: less_Suc_eq_le length_dropWhile_le)

definition int_of_field :: "string \<Rightarrow> int" where
  \<comment> \<open>\<^verbatim>\<open>int(text)\<close> for the text of a numeric group; \<^verbatim>\<open>%d\<close> may start with a space.\<close>
  "int_of_field s = int_of_digits (filter is_digit s)"

fun index_of :: "string \<Rightarrow> string list \<Rightarrow> int" where
  \<comment> \<open>\<^verbatim>\<open>names.index(w)\<close>, for a word of the list.\<close>
  "index_of w [] = 0"
| "index_of w (x # xs) = (if w = x then 0 else 1 + index_of w xs)"

definition strptime :: "string \<Rightarrow> string \<Rightarrow> datetime option" where
  "strptime data_string format =
     (case compile_format format of
        None \<Rightarrow> None
      | Some (keys, r) \<Rightarrow>
          (case rx_match r (lower data_string) of
             [] \<Rightarrow> None
           | (groups, rest) # others \<Rightarrow>
               if rest \<noteq> [] then None
               else
                 let found = map_of (zip keys groups);
                     year = (case found (CHR ''Y'') of Some y \<Rightarrow> int_of_field y | None \<Rightarrow> 1900);
                     month =
                       (case found (CHR ''m'') of
                          Some m \<Rightarrow> int_of_field m
                        | None \<Rightarrow>
                            (case found (CHR ''B'') of
                               Some n \<Rightarrow> index_of n month_name + 1
                             | None \<Rightarrow>
                                 (case found (CHR ''b'') of
                                    Some n \<Rightarrow> index_of n month_abbr + 1
                                  | None \<Rightarrow> 1)));
                     day = (case found (CHR ''d'') of Some d \<Rightarrow> int_of_field d | None \<Rightarrow> 1);
                     hour =
                       (case found (CHR ''H'') of
                          Some h \<Rightarrow> int_of_field h
                        | None \<Rightarrow>
                            (case found (CHR ''I'') of
                               Some i \<Rightarrow>
                                 (let h = int_of_field i;
                                      ampm = (case found (CHR ''p'') of Some a \<Rightarrow> a | None \<Rightarrow> [])
                                  in if ampm = [] \<or> ampm = ''am''
                                     then (if h = 12 then 0 else h)
                                     else (if h \<noteq> 12 then h + 12 else h))
                             | None \<Rightarrow> 0));
                     minute = (case found (CHR ''M'') of Some m \<Rightarrow> int_of_field m | None \<Rightarrow> 0)
                 in (case mk_datetime year month day hour minute of
                       Inl e \<Rightarrow> None
                     | Inr t \<Rightarrow> Some t)))"

definition strftime_Ymd_IMp :: "datetime \<Rightarrow> string" where
  \<comment> \<open>\<^verbatim>\<open>dt.strftime("%Y-%m-%d %I:%M %p")\<close>, the year printed with four digits.\<close>
  "strftime_Ymd_IMp t =
     (case ord2ymd (toordinal t) of (year, month, day) \<Rightarrow>
        zfill 4 (str_int year) @ ''-'' @ zfill 2 (str_int month) @ ''-'' @ zfill 2 (str_int day)
        @ '' '' @ zfill 2 (str_int (if dt_hour t mod 12 = 0 then 12 else dt_hour t mod 12))
        @ '':'' @ zfill 2 (str_int (dt_minute t))
        @ '' '' @ (if dt_hour t < 12 then ''AM'' else ''PM''))"

section \<open>TimeParser\<close>

text \<open>
  The parser reads the wall clock inside: \<^verbatim>\<open>parse_relative_time\<close> calls
  \<^verbatim>\<open>datetime.now()\<close> once on entry; \<^verbatim>\<open>_get_next_weekday\<close> calls it twice more (for the
  weekday, then for the base of the sum) and \<^verbatim>\<open>_get_specific_time\<close> once more. The clock
  is an input of the model: \<open>clock k\<close> is the value the \<open>k\<close>-th call of \<^verbatim>\<open>datetime.now()\<close>
  of one run returns (\<open>k = 0, 1, 2\<close>). A result is \<open>Inl e\<close> when the exception \<open>e\<close>
  leaves the function, \<open>Inr None\<close> for \<^verbatim>\<open>None\<close> and \<open>Inr (Some t)\<close> for a datetime.
  (\<^verbatim>\<open>int\<close> refuses more than 4300 digits with a \<^verbatim>\<open>ValueError\<close> in recent interpreters;
  for such a number the model raises the \<^verbatim>\<open>OverflowError\<close> of \<^verbatim>\<open>timedelta\<close>.)
\<close>

definition weekdays :: "string list" where
  "weekdays = [''monday'', ''tuesday'', ''wednesday'', ''thursday'', ''friday'', ''saturday'',
               ''sunday'']"

definition weekday_map :: "string \<Rightarrow> int option" where
  "weekday_map = map_of [(''monday'', 0), (''tuesday'', 1), (''wednesday'', 2), (''thursday'', 3),
                         (''friday'', 4), (''saturday'', 5), (''sunday'', 6)]"

definition get_next_weekday :: "datetime \<Rightarrow> datetime \<Rightarrow> string \<Rightarrow> py_error + datetime" where
  \<comment> \<open>\<^verbatim>\<open>_get_next_weekday\<close>; \<open>now1\<close> and \<open>now2\<close> are its two clock readings.\<close>
  "get_next_weekday now1 now2 wd =
     (case weekday_map wd of
        None \<Rightarrow> Inl KeyError
      | Some target_day \<Rightarrow>
          (let current_day = weekday now1;
               days_ahead = target_day - current_day;
               days_ahead = (if days_ahead \<le> 0 then days_ahead + 7 else days_ahead)
           in plus_us now2 (days_ahead * US_PER_DAY)))"

definition get_specific_time ::
  "datetime \<Rightarrow> string \<Rightarrow> int \<Rightarrow> int \<Rightarrow> string option \<Rightarrow> py_error + datetime" where
  \<comment> \<open>\<^verbatim>\<open>_get_specific_time\<close>; \<open>now\<close> is its clock reading.\<close>
  "get_specific_time now day hour0 minute ampm =
     (let hour =
            (case ampm of
               None \<Rightarrow> hour0
             | Some a \<Rightarrow>
                 if lower a = ''pm'' \<and> hour0 \<noteq> 12 then hour0 + 12
                 else if lower a = ''am'' \<and> hour0 = 12 then 0
                 else hour0)
      in case replace_hour_minute now hour minute of
           Inl e \<Rightarrow> Inl e
         | Inr target_time \<Rightarrow>
             if day = ''tomorrow'' then plus_us target_time US_PER_DAY else Inr target_time)"

definition in_pattern :: "string \<Rightarrow> rx" where
  \<comment> \<open>\<^verbatim>\<open>in (\d+) minutes?\<close> and its like for hours and days.\<close>
  "in_pattern unit = seq [Str ''in '', Grp (Many1 digits), Str ('' '' @ unit), Opt (Str ''s'')]"

definition next_weekday_pattern :: rx where
  \<comment> \<open>\<^verbatim>\<open>next (monday|tuesday|wednesday|thursday|friday|saturday|sunday)\<close>\<close>
  "next_weekday_pattern = seq [Str ''next '', Grp (any_of weekdays)]"

definition specific_time_pattern :: rx where
  \<comment> \<open>\<^verbatim>\<open>(today|tomorrow) at (\d{1,2}):(\d{2})(am|pm)?\<close>\<close>
  "specific_time_pattern =
     seq [Grp (any_of [''today'', ''tomorrow'']), Str '' at '',
          Grp (Seq (Ch digits) (Opt (Ch digits))), Str '':'',
          Grp (Seq (Ch digits) (Ch digits)), Opt (Grp (any_of [''am'', ''pm'']))]"

definition some_result :: "py_error + datetime \<Rightarrow> py_error + datetime option" where
  "some_result r = (case r of Inl e \<Rightarrow> Inl e | Inr t \<Rightarrow> Inr (Some t))"

definition parse_relative_time :: "(nat \<Rightarrow> datetime) \<Rightarrow> string \<Rightarrow> py_error + datetime option" where
  "parse_relative_time clock time_str0 =
     (let time_str = strip (lower time_str0);
          now = clock 0
      in case re_match (in_pattern ''minute'') time_str of
           Some m \<Rightarrow> some_result (plus_us now (int_of_digits (m ! 0) * US_PER_MINUTE))
         | None \<Rightarrow>
       (case re_match (in_pattern ''hour'') time_str of
           Some m \<Rightarrow> some_result (plus_us now (int_of_digits (m ! 0) * US_PER_HOUR))
         | None \<Rightarrow>
       (case re_match (in_pattern ''day'') time_str of
           Some m \<Rightarrow> some_result (plus_us now (int_of_digits (m ! 0) * US_PER_DAY))
         | None \<Rightarrow>
       (case re_match (Str ''tomorrow'') time_str of
           Some m \<Rightarrow> some_result (plus_us now US_PER_DAY)
         | None \<Rightarrow>
       (case re_match (Str ''next week'') time_str of
           Some m \<Rightarrow> some_result (plus_us now (7 * US_PER_DAY))
         | None \<Rightarrow>
       (case re_match next_weekday_pattern time_str of
           Some m \<Rightarrow> some_result (get_next_weekday (clock 1) (clock 2) (m ! 0))
         | None \<Rightarrow>
       (case re_match specific_time_pattern time_str of
           Some m \<Rightarrow>
             some_result
               (get_specific_time (clock 1) (m ! 0) (int_of_digits (m ! 1))
                  (int_of_digits (m ! 2)) (if length m = 4 then Some (m ! 3) else None))
         | None \<Rightarrow> Inr None)))))))"

definition formats :: "string list" where
  "formats =
     [''%Y-%m-%d %H:%M'',
      ''%Y-%m-%d %I:%M %p'',
      ''%Y-%m-%d %I:%M%p'',
      ''%d/%m/%Y %H:%M'',
      ''%d/%m/%Y %I:%M %p'',
      ''%m/%d/%Y %H:%M'',
      ''%m/%d/%Y %I:%M %p'',
      ''%b %d %I:%M %p'',
      ''%B %d %I:%M %p'',
      ''%Y-%m-%d %I:%M %p'',
      ''%Y-%m-%d %I:%M%p'']"

fun try_formats :: "string \<Rightarrow> string list \<Rightarrow> datetime option" where
  \<comment> \<open>The loop over the formats: the first one that parses the text returns.\<close>
  "try_formats s [] = None"
| "try_formats s (fmt # fmts) =
     (case strptime s fmt of Some t \<Rightarrow> Some t | None \<Rightarrow> try_formats s fmts)"

fun try_combinations :: "string list \<Rightarrow> string list \<Rightarrow> datetime option" where
  "try_combinations [] fmts = None"
| "try_combinations (combo # combos) fmts =
     (case try_formats combo fmts of Some t \<Rightarrow> Some t | None \<Rightarrow> try_combinations combos fmts)"

definition remove_quotes :: "string \<Rightarrow> string" where
  \<comment> \<open>\<^verbatim>\<open>time_str.replace("'", "").replace('"', "")\<close>\<close>
  "remove_quotes s = filter (\<lambda>c. c \<noteq> CHR 0x22) (filter (\<lambda>c. c \<noteq> CHR 0x27) s)"

definition parse_absolute_time :: "string \<Rightarrow> datetime option" where
  "parse_absolute_time time_str0 =
     (let time_str = remove_quotes (strip time_str0)
      in case try_formats time_str formats of
           Some t \<Rightarrow> Some t
         | None \<Rightarrow>
             (let parts = split time_str
              in if length parts \<ge> 2 then
                   (let date_part = hd parts;
                        time_part = join '' '' (tl parts);
                        combinations =
                          [date_part @ '' '' @ time_part,
                           date_part @ '' '' @ filter (\<lambda>c. c \<noteq> CHR '' '') time_part]
                    in try_combinations combinations formats)
                 else None))"

definition parse_time :: "(nat \<Rightarrow> datetime) \<Rightarrow> string \<Rightarrow> py_error + datetime option" where
  "parse_time clock time_str =
     (case parse_relative_time clock time_str of
        Inl e \<Rightarrow> Inl e
      | Inr (Some result) \<Rightarrow> Inr (Some result)
      | Inr None \<Rightarrow> Inr (parse_absolute_time time_str))"

definition format_time :: "datetime \<Rightarrow> string" where
  "format_time dt = strftime_Ymd_IMp dt"

section \<open>Concrete inputs\<close>

text \<open>
  A small state for concrete evaluation: one task, one unsent reminder for it that is due
  at 2025-07-06 10:00:00, and the reminder's job.
\<close>

definition example_task :: Task where
  "example_task =
     \<lparr>t_id = ''507f191e810c19729de860ea'', t_user_id = 7, title = ''Buy milk'',
      description = '''', due_date = None, priority = ''medium'', completed = False,
      t_created_at = 63887385600000000\<rparr>"

definition example_reminder :: Reminder where
  "example_reminder =
     \<lparr>r_id = ''507f1f77bcf86cd799439011'', user_id = 7, task_id = ''507f191e810c19729de860ea'',
      reminder_time = 63887392800000000, message = ''Do not forget'', sent = False,
      created_at = 63887385600000000\<rparr>"

definition example_bot :: bot where
  "example_bot =
     \<lparr>jobs = [\<lparr>jid = ''reminder_507f1f77bcf86cd799439011'', run_date = 63887392800000000,
               jargs = (''507f1f77bcf86cd799439011'', 7, ''507f191e810c19729de860ea'',
                        ''Do not forget'')\<rparr>],
      task_manager = \<lparr>tasks_collection = [example_task],
                      reminders_collection = [example_reminder]\<rparr>\<rparr>"

definition all_delivered :: "nat \<Rightarrow> discord_reply" where
  \<comment> \<open>Discord answers every request of a cycle with success.\<close>
  "all_delivered k = \<lparr>fetch_user = Fetched, send = Delivered\<rparr>"

text \<open>
  Two clocks for concrete evaluation. Both read 2025-07-06 23:59:59.999999, a Sunday,
  when the parser is entered; the first stays there, the second has reached midnight
  when \<^verbatim>\<open>_get_next_weekday\<close> reads it for the second time.
\<close>

definition clock_before_midnight :: "nat \<Rightarrow> datetime" where
  "clock_before_midnight k = 63887443199999999"

definition clock_across_midnight :: "nat \<Rightarrow> datetime" where
  "clock_across_midnight k = (if k < 2 then 63887443199999999 else 63887443200000000)"





definition example_date_trigger :: "datetime \<Rightarrow> scheduler_error + datetime" where
  \<comment> \<open>What \<^verbatim>\<open>DateTrigger\<close> does with the run dates of the examples: 2025-07-06 10:00:00 and
     11:00:00 are whole seconds of the present, which the conversion keeps as they are;
     for \<^verbatim>\<open>datetime.max\<close> the constructor raises. The examples use no other time, and for
     every other time this function lets the constructor raise.\<close>
  "example_date_trigger t =
     (if t = 63887392800000000 \<or> t = 63887396400000000 then Inr t else Inl TriggerError)"

definition quoted_literal :: string where
  \<comment> \<open>The text \<^verbatim>\<open>'2025-07-06' '10:00 AM'\<close>, the date and the time as two quoted tokens.\<close>
  "quoted_literal =
     [CHR 0x27] @ ''2025-07-06'' @ [CHR 0x27] @ '' '' @ [CHR 0x27] @ ''10:00 AM'' @ [CHR 0x27]"

section \<open>Lemmas on the helper functions\<close>

lemma td_fields_below_day:
  assumes "0 \<le> d" "d < US_PER_DAY"
  shows "td_days d = 0" "td_seconds d div 3600 = d div US_PER_HOUR"
  using assms
  by (simp_all add: td_days_def td_seconds_def US_PER_DAY_def US_PER_SECOND_def
        US_PER_HOUR_def div_mult2_eq[symmetric])

lemma td_minutes_below_hour:
  assumes "0 \<le> d" "d < US_PER_HOUR"
  shows "(td_seconds d mod 3600) div 60 = d div US_PER_MINUTE"
proof -
  have "d mod US_PER_DAY = d" using assms by (simp add: US_PER_DAY_def US_PER_HOUR_def)
  then have s: "td_seconds d = d div 1000000" by (simp add: td_seconds_def US_PER_SECOND_def)
  have "d div 1000000 < 3600" using assms by (simp add: US_PER_HOUR_def)
  moreover have "0 \<le> d div 1000000" using assms by simp
  ultimately have "(d div 1000000) mod 3600 = d div 1000000" by simp
  then show ?thesis using assms by (simp add: s US_PER_MINUTE_def div_mult2_eq[symmetric])
qed

lemma td_days_pos: "0 < td_days d \<longleftrightarrow> US_PER_DAY \<le> d"
  by (simp add: td_days_def US_PER_DAY_def pos_imp_zdiv_pos_iff)

lemma div_pos_iff_le: "0 < (k::int) \<Longrightarrow> 0 < d div k \<longleftrightarrow> k \<le> d"
  by (simp add: pos_imp_zdiv_pos_iff)

lemma format_relative_time_at_now: "format_relative_time now now = ''now''"
  by (simp add: format_relative_time_def td_days_def td_seconds_def)

section \<open>C4: format\_relative\_time\<close>

text \<open>
  Claim C4, as the code has it. For every timestamp \<open>t\<close> and clock reading \<open>now\<close>,
  \<open>format_relative_time\<close> answers "past due" exactly when \<open>t\<close> is strictly before
  \<open>now\<close>. Otherwise (\<open>t\<close> at or after \<open>now\<close>) it names the largest whole unit that
  remains: the whole days when at least one day remains, else the whole hours when at
  least one hour remains, else the whole minutes when at least one minute remains, else
  "now". A timestamp equal to \<open>now\<close> has less than a minute left and is rendered "now".
\<close>

theorem format_relative_time_largest_unit:
  "format_relative_time now t =
     (if t < now then ''past due''
      else if US_PER_DAY \<le> t - now then
        ''in '' @ str_int ((t - now) div US_PER_DAY) @ '' day'' @ plural ((t - now) div US_PER_DAY)
      else if US_PER_HOUR \<le> t - now then
        ''in '' @ str_int ((t - now) div US_PER_HOUR) @ '' hour'' @ plural ((t - now) div US_PER_HOUR)
      else if US_PER_MINUTE \<le> t - now then
        ''in '' @ str_int ((t - now) div US_PER_MINUTE) @ '' minute''
          @ plural ((t - now) div US_PER_MINUTE)
      else ''now'')"
proof (cases "t < now")
  case True
  then show ?thesis by (simp add: format_relative_time_def)
next
  case nonneg: False
  define d where "d = t - now"
  have d0: "0 \<le> d" using nonneg by (simp add: d_def)
  show ?thesis
  proof (cases "US_PER_DAY \<le> d")
    case True
    then have "0 < td_days d" by (simp add: td_days_pos)
    then show ?thesis using nonneg True d0
      by (simp add: format_relative_time_def Let_def d_def[symmetric] td_days_def)
  next
    case below_day: False
    then have dd: "d < US_PER_DAY" by simp
    note f = td_fields_below_day[OF d0 dd]
    show ?thesis
    proof (cases "US_PER_HOUR \<le> d")
      case True
      then have "0 < d div US_PER_HOUR" by (simp add: div_pos_iff_le US_PER_HOUR_def)
      then show ?thesis using nonneg below_day True d0
        by (simp add: format_relative_time_def Let_def d_def[symmetric] f)
    next
      case below_hour: False
      then have dh: "d < US_PER_HOUR" by simp
      then have h0: "d div US_PER_HOUR = 0" using d0 by (simp add: US_PER_HOUR_def)
      note m = td_minutes_below_hour[OF d0 dh]
      have mpos: "0 < d div US_PER_MINUTE \<longleftrightarrow> US_PER_MINUTE \<le> d"
        by (simp add: div_pos_iff_le US_PER_MINUTE_def)
      show ?thesis using nonneg below_day below_hour d0
        by (simp add: format_relative_time_def Let_def d_def[symmetric] f h0 m mpos)
    qed
  qed
qed

text \<open>
  The claim as stated asks for "past due" also when \<open>t\<close> equals \<open>now\<close>. At
  2025-07-06 10:00:00 (63887392800000000 microseconds after 0001-01-01), with the clock
  reading that same instant, the answer is "now".
\<close>

theorem format_relative_time_equal_counterexample:
  "format_relative_time 63887392800000000 63887392800000000 \<noteq> ''past due''"
  by (simp add: format_relative_time_at_now)

section \<open>C9: validate\_task\_id\<close>

lemma rx_match_times_Ch:
  "rx_match (times n (Ch cls)) s =
     (if n \<le> length s \<and> set (take n s) \<subseteq> set cls then [([], drop n s)] else [])"
proof (induction n arbitrary: s)
  case 0
  then show ?case by simp
next
  case (Suc n)
  show ?case
  proof (cases s)
    case Nil
    then show ?thesis by simp
  next
    case (Cons c cs)
    then show ?thesis using Suc[of cs] by simp
  qed
qed

lemma validate_task_id_iff:
  "validate_task_id s \<longleftrightarrow>
     (\<exists>h. length h = 24 \<and> set h \<subseteq> set ''abcdef0123456789'' \<and> (s = h \<or> s = h @ [CHR 0x0A]))"
proof
  assume v: "validate_task_id s"
  then have m: "rx_match task_id_pattern s \<noteq> []"
    by (auto simp: validate_task_id_def re_match_def split: if_splits list.splits)
  have l: "24 \<le> length s" and c: "set (take 24 s) \<subseteq> set ''abcdef0123456789''"
    and d: "drop 24 s = [] \<or> drop 24 s = [CHR 0x0A]"
    using m unfolding task_id_pattern_def
    by (simp_all add: rx_match_times_Ch del: set_simps split: if_splits)
  have e: "s = take 24 s @ drop 24 s" by simp
  have "s = take 24 s \<or> s = take 24 s @ [CHR 0x0A]"
    using d e by (metis append_Nil2)
  moreover have "length (take 24 s) = 24" using l by simp
  ultimately show "\<exists>h. length h = 24 \<and> set h \<subseteq> set ''abcdef0123456789'' \<and>
                 (s = h \<or> s = h @ [CHR 0x0A])"
    using c by blast
next
  assume "\<exists>h. length h = 24 \<and> set h \<subseteq> set ''abcdef0123456789'' \<and> (s = h \<or> s = h @ [CHR 0x0A])"
  then obtain h where h: "length h = 24" "set h \<subseteq> set ''abcdef0123456789''"
    "s = h \<or> s = h @ [CHR 0x0A]"
    by blast
  have n: "s \<noteq> []" using h(1,3) by auto
  have t: "take 24 s = h" "24 \<le> length s" "drop 24 s = [] \<or> drop 24 s = [CHR 0x0A]"
    using h(1,3) by auto
  have "rx_match task_id_pattern s = [([], drop 24 s)]"
    unfolding task_id_pattern_def using t h(2)
    by (auto simp add: rx_match_times_Ch simp del: set_simps)
  then show "validate_task_id s" using n
    by (simp add: validate_task_id_def re_match_def)
qed

text \<open>
  Claim C9 says that the validator accepts exactly the strings of 24 lowercase hex
  characters. The pattern ends in \<^verbatim>\<open>$\<close>, not \<^verbatim>\<open>\Z\<close>, so the 25-character string made of
  a valid id and one line feed is accepted as well.
\<close>

theorem validate_task_id_accepts_trailing_newline:
  "validate_task_id (''507f1f77bcf86cd799439011'' @ [CHR 0x0A]) = True \<and>
   length (''507f1f77bcf86cd799439011'' @ [CHR 0x0A]) = 25"
  by code_simp

section \<open>Lemmas on the job table\<close>

lemma get_job_None_iff: "get_job js i = None \<longleftrightarrow> i \<notin> jid ` set js"
  by (induction js) (auto simp: get_job_def)

lemma get_job_Some_jid: "get_job js i = Some j \<Longrightarrow> jid j = i \<and> j \<in> set js"
  by (induction js) (auto simp: get_job_def split: if_splits)


lemma filter_absent_neq: "i \<notin> jid ` set ks \<Longrightarrow> filter (\<lambda>k. jid k \<noteq> i) ks = ks"
  by (induction ks) auto

lemma filter_neq_absent: "i \<notin> jid ` set (filter (\<lambda>k. jid k \<noteq> i) ks)"
  by (induction ks) auto

lemma map_jid_replace_first: "map jid (replace_first j js) = map jid js"
  by (induction js) auto


lemma delete_first_filter:
  "distinct (map jid js) \<Longrightarrow> delete_first i js = filter (\<lambda>k. jid k \<noteq> i) js"
proof (induction js)
  case Nil
  then show ?case by simp
next
  case (Cons k ks)
  show ?case
  proof (cases "jid k = i")
    case True
    then have "i \<notin> jid ` set ks" using Cons.prems by auto
    then have "filter (\<lambda>k. jid k \<noteq> i) ks = ks" by (rule filter_absent_neq)
    then show ?thesis using True by simp
  next
    case False
    then show ?thesis using Cons by auto
  qed
qed

lemma add_job_replace_distinct:
  "one_job_per_id js \<Longrightarrow> add_job js j True = Inr js' \<Longrightarrow> one_job_per_id js'"
  by (auto simp: add_job_def one_job_per_id_def map_jid_replace_first get_job_None_iff
           split: option.splits)


lemma add_reminder_invariant:
  "one_job_per_id js \<Longrightarrow> one_job_per_id (fst (add_reminder dt js rid t u tk m))"
  by (auto simp: add_reminder_def split: sum.splits dest: add_job_replace_distinct)




section \<open>C5: add\_reminder is an upsert\<close>




section \<open>C10: update\_reminder removes the job and registers none\<close>

lemma update_reminder_never_succeeds: "snd (update_reminder dt js rid new_time) = False"
  by (auto simp: update_reminder_def remove_job_def add_job_def split: option.splits sum.splits)

text \<open>
  Claim C10. When the table (at most one job per id) holds a job for the reminder id,
  \<open>update_reminder\<close> removes that job, finds nothing at the lookup that follows the
  removal, registers no replacement and returns \<open>False\<close>: the table that results is the
  old one without the job, and no job for the id is left in it.
\<close>

theorem update_reminder_drops_job:
  assumes "one_job_per_id js" and "get_job js (job_id_of rid) = Some j"
  shows "update_reminder dt js rid new_time = (filter (\<lambda>k. jid k \<noteq> job_id_of rid) js, False) \<and>
         get_job (fst (update_reminder dt js rid new_time)) (job_id_of rid) = None \<and>
         live_jobs (fst (update_reminder dt js rid new_time)) rid = []"
proof -
  let ?js1 = "filter (\<lambda>k. jid k \<noteq> job_id_of rid) js"
  have r: "remove_job js (job_id_of rid) = Inr ?js1"
    using assms by (simp add: remove_job_def delete_first_filter one_job_per_id_def)
  have g: "get_job ?js1 (job_id_of rid) = None"
    unfolding get_job_None_iff by (rule filter_neq_absent)
  have u: "update_reminder dt js rid new_time = (?js1, False)"
    by (simp add: update_reminder_def r g)
  show ?thesis by (simp add: u g live_jobs_def)
qed

theorem update_reminder_drops_job_witness:
  "one_job_per_id
     [\<lparr>jid = ''reminder_a1'', run_date = 100, jargs = (''a1'', 7, ''t1'', ''hi'')\<rparr>,
      \<lparr>jid = ''reminder_b2'', run_date = 150, jargs = (''b2'', 8, ''t2'', ''yo'')\<rparr>] \<and>
   get_job
     [\<lparr>jid = ''reminder_a1'', run_date = 100, jargs = (''a1'', 7, ''t1'', ''hi'')\<rparr>,
      \<lparr>jid = ''reminder_b2'', run_date = 150, jargs = (''b2'', 8, ''t2'', ''yo'')\<rparr>]
     (job_id_of ''a1'') =
     Some \<lparr>jid = ''reminder_a1'', run_date = 100, jargs = (''a1'', 7, ''t1'', ''hi'')\<rparr> \<and>
   update_reminder example_date_trigger
     [\<lparr>jid = ''reminder_a1'', run_date = 100, jargs = (''a1'', 7, ''t1'', ''hi'')\<rparr>,
      \<lparr>jid = ''reminder_b2'', run_date = 150, jargs = (''b2'', 8, ''t2'', ''yo'')\<rparr>]
     ''a1'' 300 =
     ([\<lparr>jid = ''reminder_b2'', run_date = 150, jargs = (''b2'', 8, ''t2'', ''yo'')\<rparr>], False)"
proof -
  let ?js = "[\<lparr>jid = ''reminder_a1'', run_date = 100, jargs = (''a1'', 7, ''t1'', ''hi'')\<rparr>,
      \<lparr>jid = ''reminder_b2'', run_date = 150, jargs = (''b2'', 8, ''t2'', ''yo'')\<rparr>]"
  have h1: "one_job_per_id ?js" by (simp add: one_job_per_id_def)
  have h2: "get_job ?js (job_id_of ''a1'') =
     Some \<lparr>jid = ''reminder_a1'', run_date = 100, jargs = (''a1'', 7, ''t1'', ''hi'')\<rparr>"
    by (simp add: get_job_def job_id_of_def)
  show ?thesis
    using h1 h2 update_reminder_drops_job [OF h1 h2, of example_date_trigger 300]
    by (simp add: job_id_of_def)
qed

section \<open>Lemmas on the store, the deliveries and the histories\<close>

lemma sweep_deliveries_append: "sweep_deliveries (xs @ ys) = sweep_deliveries xs @ sweep_deliveries ys"
  by (induction xs rule: sweep_deliveries.induct) auto

lemma timer_deliveries_append: "timer_deliveries (xs @ ys) = timer_deliveries xs @ timer_deliveries ys"
  by (induction xs rule: timer_deliveries.induct) auto

lemma send_reminder_cases:
  "send_reminder tm reply r =
     (if get_task_by_id tm (task_id r) \<noteq> None \<and> fetch_user reply = Fetched \<and> send reply = Delivered
      then (fst (mark_reminder_sent tm (r_id r)),
            [Send_reminder (r_id r),
             DM_sent (user_id r) (title (the (get_task_by_id tm (task_id r)))) (message r),
             Mark_sent (r_id r)])
      else (tm, [Send_reminder (r_id r)]))"
  by (auto simp: send_reminder_def split: option.splits fetch_outcome.splits send_outcome.splits)

lemma handle_reminder_callback_cases:
  "handle_reminder_callback tm reply rid uid tid msg =
     (if get_task_by_id tm tid \<noteq> None \<and> fetch_user reply = Fetched \<and> send reply = Delivered
      then (fst (mark_reminder_sent tm rid),
            [Reminder_callback rid, DM_sent uid (title (the (get_task_by_id tm tid))) msg,
             Mark_sent rid])
      else (tm, [Reminder_callback rid]))"
  by (auto simp: handle_reminder_callback_def
           split: option.splits fetch_outcome.splits send_outcome.splits)

lemma set_sent_first_ids: "map r_id (set_sent_first i rs) = map r_id rs"
  by (induction rs) auto

lemma sent_filter_set_sent_first:
  "list_all sent (filter (\<lambda>r. r_id r = k) rs) \<Longrightarrow>
   list_all sent (filter (\<lambda>r. r_id r = k) (set_sent_first i rs))"
  by (induction rs) auto

lemma all_sent_alt: "all_sent tm k = list_all sent (filter (\<lambda>r. r_id r = k) (reminders_collection tm))"
  by (simp add: all_sent_def sent_of_def list_all_iff)

lemma all_sent_mark: "all_sent tm k \<Longrightarrow> all_sent (fst (mark_reminder_sent tm rid)) k"
  by (auto simp: all_sent_alt mark_reminder_sent_def sent_filter_set_sent_first split: option.splits)

lemma all_sent_send_reminder: "all_sent tm k \<Longrightarrow> all_sent (fst (send_reminder tm reply r)) k"
  by (simp add: send_reminder_cases all_sent_mark)

lemma all_sent_callback:
  "all_sent tm k \<Longrightarrow> all_sent (fst (handle_reminder_callback tm reply rid uid tid msg)) k"
  by (simp add: handle_reminder_callback_cases all_sent_mark)

lemma send_each_all_sent: "all_sent tm k \<Longrightarrow> all_sent (fst (send_each tm replies n rs)) k"
proof (induction rs arbitrary: tm n)
  case Nil
  then show ?case by simp
next
  case (Cons r rs)
  have "all_sent (fst (send_reminder tm (replies n) r)) k"
    using Cons.prems by (rule all_sent_send_reminder)
  then have "all_sent (fst (send_each (fst (send_reminder tm (replies n) r)) replies (Suc n) rs)) k"
    by (rule Cons.IH)
  then show ?case by (simp add: case_prod_unfold Let_def)
qed

lemma send_each_deliveries: "sweep_deliveries (snd (send_each tm replies n rs)) = map r_id rs"
proof (induction rs arbitrary: tm n)
  case Nil
  then show ?case by simp
next
  case (Cons r rs)
  have "sweep_deliveries (snd (send_reminder tm (replies n) r)) = [r_id r]"
    by (simp add: send_reminder_cases)
  then show ?case using Cons.IH
    by (simp add: case_prod_unfold Let_def sweep_deliveries_append)
qed

lemma send_each_no_callbacks: "timer_deliveries (snd (send_each tm replies n rs)) = []"
proof (induction rs arbitrary: tm n)
  case Nil
  then show ?case by simp
next
  case (Cons r rs)
  have "timer_deliveries (snd (send_reminder tm (replies n) r)) = []"
    by (simp add: send_reminder_cases)
  then show ?case using Cons.IH
    by (simp add: case_prod_unfold Let_def timer_deliveries_append)
qed

lemma pending_not_all_sent:
  "all_sent tm k \<Longrightarrow> k \<notin> set (map r_id (get_pending_reminders tm now))"
  by (auto simp: all_sent_alt get_pending_reminders_def list_all_iff)

lemma all_sent_delete: "all_sent (task_manager b) k \<Longrightarrow> all_sent (task_manager (fst (delete_reminder b rid))) k"
  by (simp add: delete_reminder_def case_prod_unfold Let_def all_sent_mark)

lemma all_sent_run_job: "all_sent (task_manager b) k \<Longrightarrow> all_sent (task_manager (fst (run_job b now i reply))) k"
  by (auto simp: run_job_def case_prod_unfold Let_def all_sent_callback split: option.splits)

lemma all_sent_step: "all_sent (task_manager b) k \<Longrightarrow> all_sent (task_manager (fst (step b a))) k"
proof (cases a)
  case (Sweep now replies)
  assume "all_sent (task_manager b) k"
  then show ?thesis using Sweep
    by (simp add: case_prod_unfold Let_def process_pending_reminders_def send_each_all_sent)
next
  case (Timer now i reply)
  assume "all_sent (task_manager b) k"
  then show ?thesis using Timer by (simp add: all_sent_run_job)
next
  case (Cancel rid)
  assume "all_sent (task_manager b) k"
  then show ?thesis using Cancel by (simp add: all_sent_delete)
next
  case (Reschedule rid t dt)
  assume "all_sent (task_manager b) k"
  then show ?thesis using Reschedule by simp
qed

lemma run_job_no_sweep: "sweep_deliveries (snd (run_job b now i reply)) = []"
  by (auto simp: run_job_def case_prod_unfold Let_def handle_reminder_callback_cases split: option.splits)

lemma step_sweep_deliveries:
  "all_sent (task_manager b) k \<Longrightarrow> k \<notin> set (sweep_deliveries (snd (step b a)))"
proof (cases a)
  case (Sweep now replies)
  assume "all_sent (task_manager b) k"
  then have "k \<notin> set (map r_id (get_pending_reminders (task_manager b) now))"
    by (rule pending_not_all_sent)
  then show ?thesis using Sweep
    by (simp add: case_prod_unfold Let_def process_pending_reminders_def send_each_deliveries)
next
  case (Timer now i reply)
  then show ?thesis by (simp add: run_job_no_sweep)
next
  case (Cancel rid)
  then show ?thesis by simp
next
  case (Reschedule rid t dt)
  then show ?thesis by simp
qed

lemma run_sweep_deliveries:
  "all_sent (task_manager b) k \<Longrightarrow> k \<notin> set (sweep_deliveries (snd (run b as)))"
proof (induction as arbitrary: b)
  case Nil
  then show ?case by simp
next
  case (Cons a as)
  have 1: "k \<notin> set (sweep_deliveries (snd (step b a)))"
    using Cons.prems by (rule step_sweep_deliveries)
  have "all_sent (task_manager (fst (step b a))) k"
    using Cons.prems by (rule all_sent_step)
  then have 2: "k \<notin> set (sweep_deliveries (snd (run (fst (step b a)) as)))"
    by (rule Cons.IH)
  show ?case using 1 2 by (simp add: case_prod_unfold Let_def sweep_deliveries_append)
qed

lemma set_sent_first_distinct:
  "distinct (map r_id rs) \<Longrightarrow>
   list_all sent (filter (\<lambda>r. r_id r = i) (set_sent_first i rs))"
proof (induction rs)
  case Nil
  then show ?case by simp
next
  case (Cons r rs)
  show ?case
  proof (cases "r_id r = i")
    case True
    then have "i \<notin> r_id ` set rs" using Cons.prems by auto
    then have "filter (\<lambda>r. r_id r = i) rs = []" by (induction rs) auto
    then show ?thesis using True by simp
  next
    case False
    then show ?thesis using Cons by simp
  qed
qed

lemma filter_id_absent: "find (\<lambda>r. r_id r = i) rs = None \<Longrightarrow> filter (\<lambda>r. r_id r = i) rs = []"
  by (induction rs) (auto split: if_splits)

lemma mark_makes_all_sent:
  "distinct (map r_id (reminders_collection tm)) \<Longrightarrow> ObjectId rid = Some i \<Longrightarrow>
   all_sent (fst (mark_reminder_sent tm rid)) i"
  by (auto simp: all_sent_alt mark_reminder_sent_def set_sent_first_distinct filter_id_absent
           split: option.splits)


lemma delete_first_subset: "set (delete_first i js) \<subseteq> set js"
  by (induction js) auto

lemma remove_reminder_subset: "set (fst (remove_reminder js rid)) \<subseteq> set js"
  using delete_first_subset
  by (auto simp: remove_reminder_def remove_job_def split: option.splits)

lemma update_reminder_subset: "set (fst (update_reminder dt js rid t)) \<subseteq> set js"
  using delete_first_subset[of "job_id_of rid" js]
  by (auto simp: update_reminder_def remove_job_def add_job_def split: option.splits sum.splits)

lemma delete_reminder_jobs: "jobs (fst (delete_reminder b rid)) = fst (remove_reminder (jobs b) rid)"
  by (simp add: delete_reminder_def case_prod_unfold Let_def)

lemma delete_reminder_tm:
  "task_manager (fst (delete_reminder b rid)) = fst (mark_reminder_sent (task_manager b) rid)"
  by (simp add: delete_reminder_def case_prod_unfold Let_def)

lemma remove_reminder_one_job:
  "one_job_per_id js \<Longrightarrow> fst (remove_reminder js rid) = filter (\<lambda>k. jid k \<noteq> job_id_of rid) js"
proof (cases "get_job js (job_id_of rid)")
  case None
  then have "job_id_of rid \<notin> jid ` set js" by (simp add: get_job_None_iff)
  then have "filter (\<lambda>k. jid k \<noteq> job_id_of rid) js = js" by (rule filter_absent_neq)
  then show ?thesis using None by (simp add: remove_reminder_def remove_job_def)
next
  case (Some j)
  assume "one_job_per_id js"
  then show ?thesis using Some
    by (simp add: remove_reminder_def remove_job_def delete_first_filter one_job_per_id_def)
qed

lemma remove_reminder_no_job:
  assumes "one_job_per_id js" "jobs_from_add_reminder js"
  shows "\<forall>j \<in> set (fst (remove_reminder js rid)). fst (jargs j) \<noteq> rid"
proof
  fix j assume "j \<in> set (fst (remove_reminder js rid))"
  then have j: "j \<in> set js" "jid j \<noteq> job_id_of rid"
    using remove_reminder_one_job[OF assms(1), of rid] by auto
  then have "jid j = job_id_of (fst (jargs j))"
    using assms(2) by (auto simp: jobs_from_add_reminder_def list_all_iff)
  then show "fst (jargs j) \<noteq> rid" using j(2) by auto
qed

lemma run_job_subset: "set (jobs (fst (run_job b now i reply))) \<subseteq> set (jobs b)"
  using delete_first_subset[of i "jobs b"]
  by (auto simp: run_job_def case_prod_unfold Let_def split: option.splits)

lemma step_jobs_subset: "set (jobs (fst (step b a))) \<subseteq> set (jobs b)"
proof (cases a)
  case (Sweep now replies)
  then show ?thesis by (simp add: case_prod_unfold Let_def)
next
  case (Timer now i reply)
  then show ?thesis by (simp add: run_job_subset)
next
  case (Cancel rid)
  then show ?thesis by (simp add: delete_reminder_jobs remove_reminder_subset)
next
  case (Reschedule rid t dt)
  then show ?thesis by (simp add: update_reminder_subset)
qed

lemma run_job_timer_deliveries:
  "\<forall>j \<in> set (jobs b). fst (jargs j) \<noteq> rid \<Longrightarrow>
   rid \<notin> set (timer_deliveries (snd (run_job b now i reply)))"
  by (auto simp: run_job_def case_prod_unfold Let_def handle_reminder_callback_cases
           split: option.splits dest!: get_job_Some_jid)

lemma step_timer_deliveries:
  "\<forall>j \<in> set (jobs b). fst (jargs j) \<noteq> rid \<Longrightarrow>
   rid \<notin> set (timer_deliveries (snd (step b a)))"
proof (cases a)
  case (Sweep now replies)
  then show ?thesis
    by (simp add: case_prod_unfold Let_def process_pending_reminders_def send_each_no_callbacks)
next
  case (Timer now i reply)
  assume "\<forall>j \<in> set (jobs b). fst (jargs j) \<noteq> rid"
  then show ?thesis using Timer by (simp add: run_job_timer_deliveries)
next
  case (Cancel r)
  then show ?thesis by simp
next
  case (Reschedule r t dt)
  then show ?thesis by simp
qed

lemma run_timer_deliveries:
  "\<forall>j \<in> set (jobs b). fst (jargs j) \<noteq> rid \<Longrightarrow>
   rid \<notin> set (timer_deliveries (snd (run b as)))"
proof (induction as arbitrary: b)
  case Nil
  then show ?case by simp
next
  case (Cons a as)
  have 1: "rid \<notin> set (timer_deliveries (snd (step b a)))"
    using Cons.prems by (rule step_timer_deliveries)
  have "\<forall>j \<in> set (jobs (fst (step b a))). fst (jargs j) \<noteq> rid"
    using Cons.prems step_jobs_subset[of b a] by blast
  then have 2: "rid \<notin> set (timer_deliveries (snd (run (fst (step b a)) as)))"
    by (rule Cons.IH)
  show ?case using 1 2 by (simp add: case_prod_unfold Let_def timer_deliveries_append)
qed

lemma sent_of_mark_distinct:
  assumes "distinct (map r_id (reminders_collection tm))" "ObjectId rid = Some i"
    "sent_of tm i \<noteq> []"
  shows "sent_of (fst (mark_reminder_sent tm rid)) i = [True]"
proof -
  have "distinct (map r_id rs) \<Longrightarrow> filter (\<lambda>r. r_id r = i) rs \<noteq> [] \<Longrightarrow>
        map sent (filter (\<lambda>r. r_id r = i) (set_sent_first i rs)) = [True]" for rs
  proof (induction rs)
    case Nil
    then show ?case by simp
  next
    case (Cons r rs)
    show ?case
    proof (cases "r_id r = i")
      case True
      then have "i \<notin> r_id ` set rs" using Cons.prems by auto
      then have "filter (\<lambda>r. r_id r = i) rs = []" by (induction rs) auto
      then show ?thesis using True by simp
    next
      case False
      then show ?thesis using Cons by simp
    qed
  qed
  moreover have "find (\<lambda>r. r_id r = i) (reminders_collection tm) \<noteq> None"
    using assms(3) filter_id_absent[of i "reminders_collection tm"] by (auto simp: sent_of_def)
  ultimately show ?thesis using assms
    by (auto simp: mark_reminder_sent_def sent_of_def split: option.splits)
qed

section \<open>The invariant of the bot\<close>

text \<open>
  The hypotheses made below on the job table and on the record ids hold in every state
  the bot reaches: creating a reminder under a fresh id keeps them, and so does every
  step of a history. The example state is what creating the example reminder gives.
\<close>

lemma distinct_delete_first: "distinct (map jid js) \<Longrightarrow> distinct (map jid (delete_first i js))"
  using delete_first_subset[of i] by (induction js) auto

lemma mark_reminder_sent_ids:
  "map r_id (reminders_collection (fst (mark_reminder_sent tm rid))) =
   map r_id (reminders_collection tm)"
  by (simp add: mark_reminder_sent_def set_sent_first_ids split: option.splits)

lemma send_reminder_ids:
  "map r_id (reminders_collection (fst (send_reminder tm reply r))) =
   map r_id (reminders_collection tm)"
  by (simp add: send_reminder_cases mark_reminder_sent_ids)

lemma handle_reminder_callback_ids:
  "map r_id (reminders_collection (fst (handle_reminder_callback tm reply rid uid tid msg))) =
   map r_id (reminders_collection tm)"
  by (simp add: handle_reminder_callback_cases mark_reminder_sent_ids)

lemma send_each_ids:
  "map r_id (reminders_collection (fst (send_each tm replies n rs))) =
   map r_id (reminders_collection tm)"
proof (induction rs arbitrary: tm n)
  case Nil
  then show ?case by simp
next
  case (Cons r rs)
  show ?case
    using Cons.IH[of "fst (send_reminder tm (replies n) r)" "Suc n"]
    by (simp add: case_prod_unfold Let_def send_reminder_ids)
qed

lemma step_ids:
  "map r_id (reminders_collection (task_manager (fst (step b a)))) =
   map r_id (reminders_collection (task_manager b))"
proof (cases a)
  case (Sweep now replies)
  then show ?thesis
    by (simp add: case_prod_unfold Let_def process_pending_reminders_def send_each_ids)
next
  case (Timer now i reply)
  then show ?thesis
    by (auto simp: run_job_def case_prod_unfold Let_def handle_reminder_callback_ids
             split: option.splits)
next
  case (Cancel rid)
  then show ?thesis by (simp add: delete_reminder_tm mark_reminder_sent_ids)
next
  case (Reschedule rid t dt)
  then show ?thesis by simp
qed

lemma update_reminder_result:
  "fst (update_reminder dt js rid t) = js \<or>
   fst (update_reminder dt js rid t) = delete_first (job_id_of rid) js"
  by (auto simp: update_reminder_def remove_job_def add_job_def split: option.splits sum.splits)

lemma remove_reminder_result:
  "fst (remove_reminder js rid) = js \<or> fst (remove_reminder js rid) = delete_first (job_id_of rid) js"
  by (auto simp: remove_reminder_def remove_job_def split: option.splits)

lemma run_job_jobs:
  "jobs (fst (run_job b now i reply)) = jobs b \<or> jobs (fst (run_job b now i reply)) = delete_first i (jobs b)"
  by (auto simp: run_job_def case_prod_unfold Let_def split: option.splits)

lemma step_jobs:
  "jobs (fst (step b a)) = jobs b \<or> (\<exists>i. jobs (fst (step b a)) = delete_first i (jobs b))"
proof (cases a)
  case (Sweep now replies)
  then show ?thesis by (simp add: case_prod_unfold Let_def)
next
  case (Timer now i reply)
  then show ?thesis using run_job_jobs[of b now i reply] by auto
next
  case (Cancel rid)
  then show ?thesis using remove_reminder_result[of "jobs b" rid]
    by (auto simp: delete_reminder_jobs)
next
  case (Reschedule rid t dt)
  then show ?thesis using update_reminder_result[of dt "jobs b" rid t] by auto
qed

lemma jobs_invariant_delete_first:
  "one_job_per_id js \<and> jobs_from_add_reminder js \<Longrightarrow>
   one_job_per_id (delete_first i js) \<and> jobs_from_add_reminder (delete_first i js)"
  using delete_first_subset[of i js]
  by (auto simp: one_job_per_id_def jobs_from_add_reminder_def list_all_iff distinct_delete_first)

lemma step_invariant: "bot_invariant b \<Longrightarrow> bot_invariant (fst (step b a))"
  using step_jobs[of b a] jobs_invariant_delete_first
  by (auto simp: bot_invariant_def step_ids)

lemma run_invariant: "bot_invariant b \<Longrightarrow> bot_invariant (fst (run b as))"
proof (induction as arbitrary: b)
  case Nil
  then show ?case by simp
next
  case (Cons a as)
  have "bot_invariant (fst (step b a))" using Cons.prems by (rule step_invariant)
  then have "bot_invariant (fst (run (fst (step b a)) as))" by (rule Cons.IH)
  then show ?case by (simp add: case_prod_unfold Let_def)
qed

lemma jobs_from_add_reminder_replace_first:
  "jobs_from_add_reminder js \<Longrightarrow> jid j = job_id_of (fst (jargs j)) \<Longrightarrow>
   jobs_from_add_reminder (replace_first j js)"
  by (induction js) (auto simp: jobs_from_add_reminder_def)

lemma add_reminder_shape:
  "jobs_from_add_reminder js \<Longrightarrow> jobs_from_add_reminder (fst (add_reminder dt js rid t u tk m))"
  by (auto simp: add_reminder_def add_job_def jobs_from_add_reminder_replace_first
           split: option.splits sum.splits)
     (simp add: jobs_from_add_reminder_def)

lemma create_reminder_invariant:
  assumes "bot_invariant b" and "new_id \<notin> set (map r_id (reminders_collection (task_manager b)))"
  shows "bot_invariant (fst (create_reminder dt b new_id utcnow uid tid rtime msg))"
  using assms add_reminder_invariant[of "jobs b" dt new_id rtime uid tid msg]
    add_reminder_shape[of "jobs b" dt new_id rtime uid tid msg]
  by (auto simp: bot_invariant_def create_reminder_def create_reminder_doc_def
        case_prod_unfold Let_def)

lemma example_bot_created:
  "create_reminder example_date_trigger
     \<lparr>jobs = [], task_manager = \<lparr>tasks_collection = [example_task], reminders_collection = []\<rparr>\<rparr>
     ''507f1f77bcf86cd799439011'' 63887385600000000 7 ''507f191e810c19729de860ea''
     63887392800000000 ''Do not forget'' =
   (example_bot, Some ''507f1f77bcf86cd799439011'')"
  by (simp add: create_reminder_def create_reminder_doc_def add_reminder_def add_job_def
        get_job_def job_id_of_def example_bot_def example_reminder_def example_date_trigger_def)

section \<open>C2: the record is marked sent only after a successful send\<close>



section \<open>C6: the sweep delivers exactly the due, unsent records\<close>

text \<open>
  Claim C6. One cycle of the sweep asks the store for the records that are due
  (\<open>reminder_time \<le> now\<close>) and not sent; the query returns exactly those, and
  \<open>send_reminder\<close> is invoked once for each of them, in the order of the query, and for
  no other record. A record whose sent flag is true is not returned, whatever the time
  of the query. Marking a record sent makes every record with its id sent (ids are
  unique in the collection), and a reminder whose records are all sent is never handed
  to \<open>send_reminder\<close> again, in any later history of sweeps, timers, cancellations and
  reschedulings.
\<close>

theorem sweep_delivers_exactly_pending:
  "set (get_pending_reminders tm now) =
     {r \<in> set (reminders_collection tm). reminder_time r \<le> now \<and> \<not> sent r} \<and>
   sweep_deliveries (snd (process_pending_reminders tm now replies)) =
     map r_id (get_pending_reminders tm now) \<and>
   (sent r \<longrightarrow> r \<notin> set (get_pending_reminders tm now)) \<and>
   (distinct (map r_id (reminders_collection tm)) \<and> ObjectId rid = Some i \<longrightarrow>
      all_sent (fst (mark_reminder_sent tm rid)) i) \<and>
   (all_sent (task_manager b) i \<longrightarrow> i \<notin> set (sweep_deliveries (snd (run b as))))"
proof -
  have "set (get_pending_reminders tm now) =
     {r \<in> set (reminders_collection tm). reminder_time r \<le> now \<and> \<not> sent r}"
    by (auto simp: get_pending_reminders_def)
  moreover have "sweep_deliveries (snd (process_pending_reminders tm now replies)) =
     map r_id (get_pending_reminders tm now)"
    by (simp add: process_pending_reminders_def send_each_deliveries)
  moreover have "sent r \<longrightarrow> r \<notin> set (get_pending_reminders tm now)"
    by (simp add: get_pending_reminders_def)
  ultimately show ?thesis
    using mark_makes_all_sent run_sweep_deliveries by blast
qed

theorem sweep_delivers_exactly_pending_witness:
  "sweep_deliveries
     (snd (process_pending_reminders (task_manager example_bot) 63887392800000000 all_delivered)) =
     [''507f1f77bcf86cd799439011''] \<and>
   distinct (map r_id (reminders_collection (task_manager example_bot))) \<and>
   ObjectId ''507f1f77bcf86cd799439011'' = Some ''507f1f77bcf86cd799439011'' \<and>
   all_sent (fst (mark_reminder_sent (task_manager example_bot) ''507f1f77bcf86cd799439011''))
     ''507f1f77bcf86cd799439011'' \<and>
   ''507f1f77bcf86cd799439011'' \<notin>
     set (sweep_deliveries (snd (run
       (example_bot\<lparr>task_manager :=
          fst (mark_reminder_sent (task_manager example_bot) ''507f1f77bcf86cd799439011'')\<rparr>)
       [Sweep 63887392800000000 all_delivered, Sweep 63887392830000000 all_delivered])))"
proof -
  let ?rid = "''507f1f77bcf86cd799439011''"
  let ?tm = "task_manager example_bot"
  let ?b = "example_bot\<lparr>task_manager := fst (mark_reminder_sent ?tm ?rid)\<rparr>"
  have h1: "distinct (map r_id (reminders_collection ?tm))"
    by (simp add: example_bot_def)
  have h2: "ObjectId ?rid = Some ?rid"
    by (simp add: ObjectId_def is_hex_def lower_def lower_char_def)
  have p: "get_pending_reminders ?tm 63887392800000000 = [example_reminder]"
    by (simp add: get_pending_reminders_def example_bot_def example_reminder_def)
  note w = sweep_delivers_exactly_pending [where tm = ?tm and now = 63887392800000000
      and replies = all_delivered and rid = ?rid and i = ?rid and b = ?b
      and as = "[Sweep 63887392800000000 all_delivered, Sweep 63887392830000000 all_delivered]"]
  have h3: "all_sent (fst (mark_reminder_sent ?tm ?rid)) ?rid"
    using w h1 h2 by blast
  have h4: "all_sent (task_manager ?b) ?rid"
    using h3 by simp
  have "sweep_deliveries (snd (process_pending_reminders ?tm 63887392800000000 all_delivered)) =
     [?rid]"
    using w p by (simp add: example_reminder_def)
  then show ?thesis
    using w h1 h2 h3 h4 by blast
qed

section \<open>C1: cancelling a reminder\<close>

text \<open>
  Claim C1, as the code has it. \<open>delete_reminder\<close> removes the reminder's job from the
  scheduler and, instead of leaving the persisted flag alone, marks the record sent
  ("For now, we'll just mark it as sent"). So, for a bot whose job table holds one job
  per id, each made by \<open>add_reminder\<close>, whose collection has unique ids, and for a
  reminder id in the text form the bot hands out: \<open>delete_reminder\<close> returns \<open>True\<close>; no
  job for the reminder is left; every record with the id is marked sent, and if the
  reminder exists its persisted flag is true afterwards, whatever it was before; and no
  delivery is attempted for it in any later history, neither by a sweep nor by a timer.
\<close>

theorem delete_reminder_cancels:
  assumes "one_job_per_id (jobs b)" and "jobs_from_add_reminder (jobs b)"
    and "distinct (map r_id (reminders_collection (task_manager b)))"
    and "ObjectId rid = Some rid"
  shows "snd (delete_reminder b rid) = True \<and>
         live_jobs (jobs (fst (delete_reminder b rid))) rid = [] \<and>
         all_sent (task_manager (fst (delete_reminder b rid))) rid \<and>
         (sent_of (task_manager b) rid \<noteq> [] \<longrightarrow>
            sent_of (task_manager (fst (delete_reminder b rid))) rid = [True]) \<and>
         rid \<notin> set (sweep_deliveries (snd (run (fst (delete_reminder b rid)) as))) \<and>
         rid \<notin> set (timer_deliveries (snd (run (fst (delete_reminder b rid)) as)))"
proof -
  let ?b = "fst (delete_reminder b rid)"
  have r: "snd (delete_reminder b rid) = True"
    by (simp add: delete_reminder_def case_prod_unfold Let_def)
  have j: "jobs ?b = filter (\<lambda>k. jid k \<noteq> job_id_of rid) (jobs b)"
    using assms(1) by (simp add: delete_reminder_jobs remove_reminder_one_job)
  have l: "live_jobs (jobs ?b) rid = []"
    by (simp add: j live_jobs_def)
  have s: "all_sent (task_manager ?b) rid"
    using assms(3,4) by (simp add: delete_reminder_tm mark_makes_all_sent)
  have s1: "sent_of (task_manager b) rid \<noteq> [] \<longrightarrow> sent_of (task_manager ?b) rid = [True]"
    using assms(3,4) by (simp add: delete_reminder_tm sent_of_mark_distinct)
  have n: "\<forall>j \<in> set (jobs ?b). fst (jargs j) \<noteq> rid"
    using remove_reminder_no_job[OF assms(1,2)] by (simp add: delete_reminder_jobs)
  show ?thesis
    using r l s s1 run_sweep_deliveries[OF s] run_timer_deliveries[OF n] by simp
qed

theorem delete_reminder_cancels_witness:
  "one_job_per_id (jobs example_bot) \<and>
   jobs_from_add_reminder (jobs example_bot) \<and>
   distinct (map r_id (reminders_collection (task_manager example_bot))) \<and>
   ObjectId ''507f1f77bcf86cd799439011'' = Some ''507f1f77bcf86cd799439011'' \<and>
   sent_of (task_manager example_bot) ''507f1f77bcf86cd799439011'' \<noteq> [] \<and>
   snd (delete_reminder example_bot ''507f1f77bcf86cd799439011'') = True \<and>
   live_jobs (jobs (fst (delete_reminder example_bot ''507f1f77bcf86cd799439011'')))
     ''507f1f77bcf86cd799439011'' = [] \<and>
   sent_of (task_manager (fst (delete_reminder example_bot ''507f1f77bcf86cd799439011'')))
     ''507f1f77bcf86cd799439011'' = [True] \<and>
   ''507f1f77bcf86cd799439011'' \<notin>
     set (sweep_deliveries (snd (run (fst (delete_reminder example_bot ''507f1f77bcf86cd799439011''))
       [Sweep 63887392830000000 all_delivered,
        Timer 63887392830000000 ''reminder_507f1f77bcf86cd799439011'' (all_delivered 0)]))) \<and>
   ''507f1f77bcf86cd799439011'' \<notin>
     set (timer_deliveries (snd (run (fst (delete_reminder example_bot ''507f1f77bcf86cd799439011''))
       [Sweep 63887392830000000 all_delivered,
        Timer 63887392830000000 ''reminder_507f1f77bcf86cd799439011'' (all_delivered 0)])))"
proof -
  let ?rid = "''507f1f77bcf86cd799439011''"
  have h1: "one_job_per_id (jobs example_bot)"
    by (simp add: one_job_per_id_def example_bot_def)
  have h2: "jobs_from_add_reminder (jobs example_bot)"
    by (simp add: jobs_from_add_reminder_def example_bot_def job_id_of_def)
  have h3: "distinct (map r_id (reminders_collection (task_manager example_bot)))"
    by (simp add: example_bot_def)
  have h4: "ObjectId ?rid = Some ?rid"
    by (simp add: ObjectId_def is_hex_def lower_def lower_char_def)
  have h5: "sent_of (task_manager example_bot) ?rid \<noteq> []"
    by (simp add: sent_of_def example_bot_def example_reminder_def)
  show ?thesis
    using h1 h2 h3 h4 h5
      delete_reminder_cancels [OF h1 h2 h3 h4,
        of "[Sweep 63887392830000000 all_delivered,
             Timer 63887392830000000 ''reminder_507f1f77bcf86cd799439011'' (all_delivered 0)]"]
    by blast
qed

text \<open>
  The claim as stated says that the persisted flag remains false. The example reminder
  is unsent and due at 2025-07-06 10:00:00; cancelled an hour before (09:00:00 is
  63887389200000000), its persisted flag is true afterwards.
\<close>

theorem delete_reminder_sets_sent_counterexample:
  "sent_of (task_manager example_bot) ''507f1f77bcf86cd799439011'' = [False] \<and>
   map reminder_time (reminders_collection (task_manager example_bot)) = [63887392800000000] \<and>
   (63887389200000000 :: datetime) < 63887392800000000 \<and>
   sent_of (task_manager (fst (delete_reminder example_bot ''507f1f77bcf86cd799439011'')))
     ''507f1f77bcf86cd799439011'' = [True]"
  by (simp add: sent_of_def example_bot_def example_reminder_def delete_reminder_def
        remove_reminder_def remove_job_def get_job_def job_id_of_def mark_reminder_sent_def
        ObjectId_def is_hex_def lower_def lower_char_def)

section \<open>Lemmas on the parser\<close>









lemma some_result_not_None: "some_result r \<noteq> Inr None"
  by (simp add: some_result_def split: sum.splits)

lemma parse_relative_time_None_clock:
  "parse_relative_time c s = Inr None \<Longrightarrow> parse_relative_time c' s = Inr None"
  by (auto simp: parse_relative_time_def Let_def some_result_not_None split: option.splits)

lemma parse_relative_time_reads:
  assumes "c 0 = c' 0" "c 1 = c' 1" "c 2 = c' 2"
  shows "parse_relative_time c s = parse_relative_time c' s"
  unfolding parse_relative_time_def assms ..




















lemma next_monday_before_midnight: "parse_time clock_before_midnight ''next monday'' = Inr (Some 63887529599999999)"
  by code_simp

lemma next_monday_across_midnight: "parse_time clock_across_midnight ''next monday'' = Inr (Some 63887529600000000)"
  by code_simp

lemma literal_relative:
  "parse_relative_time clock ''2025-07-06 10:00 AM'' = Inr None"
  "parse_relative_time clock quoted_literal = Inr None"
  "parse_relative_time clock ''2025-07-06 10:00AM'' = Inr None"
  by code_simp+

lemma literal_absolute:
  "parse_absolute_time ''2025-07-06 10:00 AM'' = Some 63887392800000000"
  "parse_absolute_time quoted_literal = Some 63887392800000000"
  "parse_absolute_time ''2025-07-06 10:00AM'' = Some 63887392800000000"
  by code_simp+

lemma literal_instant:
  "mk_datetime 2025 7 6 10 0 = Inr 63887392800000000"
  "format_time 63887392800000000 = ''2025-07-06 10:00 AM''"
  by code_simp+

section \<open>C3: the parser and the clock\<close>

text \<open>
  Claim C3, as the code has it. The parser has no reference time among its arguments:
  it reads the wall clock itself, up to three times in one run. Its result is a function
  of the text and of those readings: two runs on the same text in which the first
  three clock readings agree give the same result. When no relative pattern matches
  (the absolute forms) the clock does not matter at all: the result is that of
  \<open>parse_absolute_time\<close>, whatever the clock reads.
\<close>

theorem parse_time_depends_on_clock_reads:
  "(c 0 = c' 0 \<and> c 1 = c' 1 \<and> c 2 = c' 2 \<longrightarrow> parse_time c s = parse_time c' s) \<and>
   (parse_relative_time c s = Inr None \<longrightarrow>
      parse_time c s = Inr (parse_absolute_time s) \<and> parse_time c' s = parse_time c s)"
proof (intro conjI impI)
  assume "c 0 = c' 0 \<and> c 1 = c' 1 \<and> c 2 = c' 2"
  then have "parse_relative_time c s = parse_relative_time c' s"
    by (intro parse_relative_time_reads) simp_all
  then show "parse_time c s = parse_time c' s" by (simp add: parse_time_def)
next
  assume n: "parse_relative_time c s = Inr None"
  then show "parse_time c s = Inr (parse_absolute_time s)" by (simp add: parse_time_def)
  from n have "parse_relative_time c' s = Inr None" by (rule parse_relative_time_None_clock)
  then show "parse_time c' s = parse_time c s" using n by (simp add: parse_time_def)
qed

theorem parse_time_depends_on_clock_reads_witness:
  "clock_before_midnight 0 = clock_across_midnight 0 \<and>
   clock_before_midnight 1 = clock_across_midnight 1 \<and>
   clock_before_midnight 2 \<noteq> clock_across_midnight 2 \<and>
   parse_relative_time clock_before_midnight ''2025-07-06 10:00 AM'' = Inr None \<and>
   parse_time clock_across_midnight ''2025-07-06 10:00 AM'' =
     parse_time clock_before_midnight ''2025-07-06 10:00 AM''"
proof -
  have r: "parse_relative_time clock_before_midnight ''2025-07-06 10:00 AM'' = Inr None"
    by code_simp
  show ?thesis
    using r parse_time_depends_on_clock_reads [of clock_before_midnight clock_across_midnight
        "''2025-07-06 10:00 AM''"]
    by (simp add: clock_before_midnight_def clock_across_midnight_def)
qed

text \<open>
  The claim as stated makes the result a function of the text and of one reference
  time. Two runs on "next monday", both entered at 2025-07-06 23:59:59.999999 (a Sunday):
  in the first the clock stands still, and the result is Monday 2025-07-07
  23:59:59.999999; in the second midnight passes between the two readings of
  \<^verbatim>\<open>_get_next_weekday\<close>, and the result is Tuesday 2025-07-08 00:00:00.
\<close>

theorem parse_time_internal_clock_counterexample:
  "clock_before_midnight 0 = clock_across_midnight 0 \<and>
   parse_time clock_before_midnight ''next monday'' = Inr (Some 63887529599999999) \<and>
   parse_time clock_across_midnight ''next monday'' = Inr (Some 63887529600000000) \<and>
   parse_time clock_before_midnight ''next monday'' \<noteq>
     parse_time clock_across_midnight ''next monday''"
  by (simp add: next_monday_before_midnight next_monday_across_midnight clock_before_midnight_def clock_across_midnight_def)

section \<open>C7: next weekday\<close>




section \<open>C8: three spellings of one instant\<close>

text \<open>
  Claim C8. Whatever the clock reads, the literals \<^verbatim>\<open>2025-07-06 10:00 AM\<close>,
  \<^verbatim>\<open>'2025-07-06' '10:00 AM'\<close> and \<^verbatim>\<open>2025-07-06 10:00AM\<close> parse to the same timestamp,
  2025-07-06T10:00:00 (the value of \<^verbatim>\<open>datetime(2025, 7, 6, 10, 0)\<close>); \<open>format_time\<close> renders
  it as \<^verbatim>\<open>2025-07-06 10:00 AM\<close>, which parses back to the same timestamp.
\<close>

theorem absolute_literals_same_instant:
  "parse_time clock ''2025-07-06 10:00 AM'' = Inr (Some 63887392800000000) \<and>
   parse_time clock quoted_literal = Inr (Some 63887392800000000) \<and>
   parse_time clock ''2025-07-06 10:00AM'' = Inr (Some 63887392800000000) \<and>
   mk_datetime 2025 7 6 10 0 = Inr 63887392800000000 \<and>
   format_time 63887392800000000 = ''2025-07-06 10:00 AM'' \<and>
   parse_time clock (format_time 63887392800000000) = Inr (Some 63887392800000000)"
  by (simp add: parse_time_def literal_relative literal_absolute literal_instant)

end
